theory Spec2Isabelle
  imports Complex_Main "HOL-Library.Sublist" "HOL-Library.Multiset" "HOL-Library.Log_Nat"
begin

section \<open>The JavaScript runtime, as a parameter\<close>

text \<open>
  The storage layer stores prices as decimal strings and computes on them with the
  runtime's \<^verbatim>\<open>parseFloat\<close>, Number arithmetic, \<^verbatim>\<open>toFixed(2)\<close> and
  \<^verbatim>\<open>toString()\<close>; it normalises names with \<^verbatim>\<open>toUpperCase\<close>, orders them with
  \<^verbatim>\<open>localeCompare\<close> and moves dates with \<^verbatim>\<open>setDate\<close>. None of these is code of
  the repository. The model takes them as one record of functions over a number type
  \<open>'n\<close> that only has to offer \<open>+\<close>, \<open>*\<close>, \<open>/\<close> and \<open><\<close> (no law is assumed of
  them), so every theorem holds for the runtime's own arithmetic, whatever it rounds.

  A point in time is the number of milliseconds since the epoch, as \<^verbatim>\<open>Date.getTime()\<close>
  gives it. Every \<^verbatim>\<open>new Date()\<close> of the source is an argument of the model: the clock
  is read by the caller.
\<close>

type_synonym time = int

record 'n runtime =
  parseFloat :: "string \<Rightarrow> 'n"
  toFixed2 :: "'n \<Rightarrow> string"
  toString :: "'n \<Rightarrow> string"
  lit :: "string \<Rightarrow> 'n"
  isNaN :: "'n \<Rightarrow> bool"
  parseInt :: "string \<Rightarrow> int option"
  toUpperCase :: "string \<Rightarrow> string"
  localeCompare :: "string \<Rightarrow> string \<Rightarrow> int"
  setDate_plus :: "int \<Rightarrow> time \<Rightarrow> time"

text \<open>
  \<open>lit rt l\<close> is the Number that the numeric literal \<open>l\<close> of the source denotes
  (\<^verbatim>\<open>20\<close>, \<^verbatim>\<open>100\<close>, \<^verbatim>\<open>1.2\<close>); \<open>parseInt rt s\<close> is \<open>None\<close> where \<^verbatim>\<open>parseInt(s)\<close> is NaN;
  \<open>setDate_plus rt k d\<close> is the date after \<^verbatim>\<open>d.setDate(d.getDate() + k)\<close>.
\<close>

subsection \<open>Truthiness, \<open>||\<close>, and the Array methods the store uses\<close>

text \<open>An optional string is falsy when it is \<^verbatim>\<open>undefined\<close>, \<^verbatim>\<open>null\<close> or empty; an
  optional number when it is \<^verbatim>\<open>undefined\<close>, \<^verbatim>\<open>null\<close> or 0.\<close>

fun truthy_str :: "string option \<Rightarrow> bool" where
  "truthy_str None = False"
| "truthy_str (Some s) = (s \<noteq> [])"

fun truthy_num :: "int option \<Rightarrow> bool" where
  "truthy_num None = False"
| "truthy_num (Some n) = (n \<noteq> 0)"

definition or_str :: "string option \<Rightarrow> string option \<Rightarrow> string option" where
  "or_str a b = (if truthy_str a then a else b)"

definition or_num :: "int option \<Rightarrow> int option \<Rightarrow> int option" where
  "or_num a b = (if truthy_num a then a else b)"

text \<open>\<^verbatim>\<open>xs.findIndex(P)\<close>: the first index whose element satisfies \<open>P\<close>; \<open>None\<close> is
  the source's \<open>-1\<close>.\<close>

fun findIndex :: "('a \<Rightarrow> bool) \<Rightarrow> 'a list \<Rightarrow> nat option" where
  "findIndex P [] = None"
| "findIndex P (x # xs) =
     (if P x then Some 0 else map_option Suc (findIndex P xs))"

text \<open>\<^verbatim>\<open>xs.splice(i, 1)\<close>, for an index inside the list.\<close>

definition splice1 :: "nat \<Rightarrow> 'a list \<Rightarrow> 'a list" where
  "splice1 i xs = take i xs @ drop (Suc i) xs"

text \<open>\<^verbatim>\<open>s.includes(t)\<close>: \<open>t\<close> occurs in \<open>s\<close> as a contiguous run.\<close>

fun str_includes :: "string \<Rightarrow> string \<Rightarrow> bool" where
  "str_includes [] t = (t = [])"
| "str_includes (c # s) t = (prefix t (c # s) \<or> str_includes s t)"

text \<open>
  \<^verbatim>\<open>xs.sort(cmp)\<close>. The sort of the language is stable; for a comparator that is a
  consistent ordering its result is the stable insertion sort below, where \<open>x\<close> goes
  before \<open>y\<close> when \<open>cmp x y \<le> 0\<close>. (For an inconsistent comparator the language leaves
  the order to the implementation; the theorems that rely on the order say which
  property of the comparator they use.)
\<close>

fun sort_insert :: "('a \<Rightarrow> 'a \<Rightarrow> int) \<Rightarrow> 'a \<Rightarrow> 'a list \<Rightarrow> 'a list" where
  "sort_insert cmp x [] = [x]"
| "sort_insert cmp x (y # ys) =
     (if cmp x y \<le> 0 then x # y # ys else y # sort_insert cmp x ys)"

definition js_sort :: "('a \<Rightarrow> 'a \<Rightarrow> int) \<Rightarrow> 'a list \<Rightarrow> 'a list" where
  "js_sort cmp xs = foldr (sort_insert cmp) xs []"

text \<open>A comparator is a consistent ordering when \<open>cmp x y \<le> 0\<close> is total and
  transitive.\<close>

definition consistent :: "('a \<Rightarrow> 'a \<Rightarrow> int) \<Rightarrow> bool" where
  "consistent cmp =
     ((\<forall>x y. cmp x y \<le> 0 \<or> cmp y x \<le> 0) \<and>
      (\<forall>x y z. cmp x y \<le> 0 \<and> cmp y z \<le> 0 \<longrightarrow> cmp x z \<le> 0))"

section \<open>The data model (shared/schema.ts, extended variant)\<close>

text \<open>
  The rows of the \<^verbatim>\<open>products\<close> and \<^verbatim>\<open>business_news\<close> tables as the in-memory store
  holds them, and the shapes the zod schemas let through. Decimal columns are strings;
  a nullable column and an optional field are options. \<^verbatim>\<open>stock\<close> and \<^verbatim>\<open>minStock\<close> are
  integer columns and are taken as integers.
\<close>

record product =
  p_id :: int
  p_name :: string
  p_barcode :: "string option"
  p_purchasePrice :: string
  p_salePrice :: string
  p_profitMargin :: string
  p_buyerName :: "string option"
  p_stock :: "int option"
  p_minStock :: "int option"
  p_createdAt :: time
  p_updatedAt :: time

text \<open>\<^verbatim>\<open>InsertProduct\<close> and \<^verbatim>\<open>UpdateProduct\<close> (both schemas pick the same fields).\<close>

record product_input =
  i_name :: string
  i_barcode :: "string option"
  i_purchasePrice :: string
  i_profitMargin :: "string option"
  i_buyerName :: "string option"
  i_stock :: "int option"
  i_minStock :: "int option"

record business_news =
  n_id :: int
  n_title :: string
  n_content :: string
  n_isPermanent :: bool
  n_createdAt :: time
  n_expiresAt :: "time option"

record news_input =
  i_title :: string
  i_content :: string
  i_isPermanent :: "bool option"

section \<open>The in-memory store (class MemStorage)\<close>

record mem_storage =
  products :: "product list"
  businessNews :: "business_news list"
  nextProductId :: int
  nextNewsId :: int

definition new_MemStorage :: mem_storage where
  "new_MemStorage = \<lparr>products = [], businessNews = [], nextProductId = 1, nextNewsId = 1\<rparr>"

subsection \<open>Products\<close>

definition compare_name :: "'n runtime \<Rightarrow> product \<Rightarrow> product \<Rightarrow> int" where
  "compare_name rt a b = localeCompare rt (p_name a) (p_name b)"

definition getAllProducts :: "'n runtime \<Rightarrow> mem_storage \<Rightarrow> product list" where
  "getAllProducts rt st = js_sort (compare_name rt) (products st)"

definition getProductById :: "mem_storage \<Rightarrow> int \<Rightarrow> product option" where
  "getProductById st i = find (\<lambda>product. p_id product = i) (products st)"

definition getProductByName :: "mem_storage \<Rightarrow> string \<Rightarrow> product option" where
  "getProductByName st nm = find (\<lambda>product. p_name product = nm) (products st)"

definition searchProducts :: "'n runtime \<Rightarrow> mem_storage \<Rightarrow> string \<Rightarrow> product list" where
  "searchProducts rt st query =
     (let filtered = filter (\<lambda>product. str_includes (p_name product) (toUpperCase rt query))
                       (products st)
      in take 10 (js_sort (compare_name rt) filtered))"

definition createProduct ::
  "('n::{plus,times,inverse}) runtime \<Rightarrow> time \<Rightarrow> product_input \<Rightarrow> mem_storage
     \<Rightarrow> product \<times> mem_storage" where
  "createProduct rt now insertProduct st =
     (let purchasePrice = parseFloat rt (i_purchasePrice insertProduct);
          profitMargin = (case i_profitMargin insertProduct of
                            Some m \<Rightarrow> if m \<noteq> [] then parseFloat rt m else lit rt ''20''
                          | None \<Rightarrow> lit rt ''20'');
          salePrice = toFixed2 rt (purchasePrice * (lit rt ''1'' + profitMargin / lit rt ''100''));
          product = \<lparr>p_id = nextProductId st,
                     p_name = i_name insertProduct,
                     p_barcode = or_str (i_barcode insertProduct) None,
                     p_purchasePrice = i_purchasePrice insertProduct,
                     p_salePrice = salePrice,
                     p_profitMargin = toString rt profitMargin,
                     p_buyerName = or_str (i_buyerName insertProduct) None,
                     p_stock = or_num (i_stock insertProduct) None,
                     p_minStock = or_num (i_minStock insertProduct) None,
                     p_createdAt = now,
                     p_updatedAt = now\<rparr>
      in (product, st\<lparr>products := products st @ [product],
                       nextProductId := nextProductId st + 1\<rparr>))"

definition updateProduct ::
  "('n::{plus,times,inverse}) runtime \<Rightarrow> time \<Rightarrow> int \<Rightarrow> product_input \<Rightarrow> mem_storage
     \<Rightarrow> product option \<times> mem_storage" where
  "updateProduct rt now i patch st =
     (case findIndex (\<lambda>product. p_id product = i) (products st) of
        None \<Rightarrow> (None, st)
      | Some index \<Rightarrow>
          (let old = products st ! index;
               purchasePrice = parseFloat rt (i_purchasePrice patch);
               profitMargin = (case i_profitMargin patch of
                                 Some m \<Rightarrow> if m \<noteq> [] then parseFloat rt m
                                           else parseFloat rt (p_profitMargin old)
                               | None \<Rightarrow> parseFloat rt (p_profitMargin old));
               salePrice = toFixed2 rt (purchasePrice * (lit rt ''1'' + profitMargin / lit rt ''100''));
               product = old\<lparr>p_name := i_name patch,
                               p_barcode := or_str (i_barcode patch) (p_barcode old),
                               p_purchasePrice := i_purchasePrice patch,
                               p_salePrice := salePrice,
                               p_profitMargin := toString rt profitMargin,
                               p_buyerName := or_str (i_buyerName patch) (p_buyerName old),
                               p_stock := (case i_stock patch of
                                             Some s \<Rightarrow> Some s | None \<Rightarrow> p_stock old),
                               p_minStock := (case i_minStock patch of
                                                Some s \<Rightarrow> Some s | None \<Rightarrow> p_minStock old),
                               p_updatedAt := now\<rparr>
           in (Some product, st\<lparr>products := (products st)[index := product]\<rparr>)))"

definition deleteProduct :: "int \<Rightarrow> mem_storage \<Rightarrow> bool \<times> mem_storage" where
  "deleteProduct i st =
     (case findIndex (\<lambda>product. p_id product = i) (products st) of
        None \<Rightarrow> (False, st)
      | Some index \<Rightarrow> (True, st\<lparr>products := splice1 index (products st)\<rparr>))"

subsection \<open>Business news\<close>

text \<open>\<^verbatim>\<open>new Date(x)\<close> for a stored \<^verbatim>\<open>expiresAt\<close>: a date is copied, and \<^verbatim>\<open>null\<close>
  becomes the epoch (\<^verbatim>\<open>new Date(null).getTime()\<close> is 0).\<close>

fun new_Date :: "time option \<Rightarrow> time" where
  "new_Date None = 0"
| "new_Date (Some t) = t"

definition compare_createdAt :: "business_news \<Rightarrow> business_news \<Rightarrow> int" where
  "compare_createdAt a b = new_Date (Some (n_createdAt a)) - new_Date (Some (n_createdAt b))"

definition getAllBusinessNews :: "time \<Rightarrow> mem_storage \<Rightarrow> business_news list" where
  "getAllBusinessNews now st =
     js_sort compare_createdAt
       (filter (\<lambda>news. n_isPermanent news \<or>
                  (case n_expiresAt news of
                     None \<Rightarrow> False
                   | Some e \<Rightarrow> new_Date (Some e) > now))
          (businessNews st))"

text \<open>
  \<open>createBusinessNews\<close> reads the clock twice: \<open>now\<close> is the reading kept as
  \<^verbatim>\<open>createdAt\<close> (line 148), \<open>now2\<close> the later reading the expiry starts from
  (line 152), taken only when the announcement is not permanent.
\<close>

definition createBusinessNews ::
  "'n runtime \<Rightarrow> time \<Rightarrow> time \<Rightarrow> news_input \<Rightarrow> mem_storage \<Rightarrow> business_news \<times> mem_storage" where
  "createBusinessNews rt now now2 insertNews st =
     (let expiresAt = (if i_isPermanent insertNews \<noteq> Some True
                       then Some (setDate_plus rt 3 now2) else None);
          news = \<lparr>n_id = nextNewsId st,
                  n_title = i_title insertNews,
                  n_content = i_content insertNews,
                  n_isPermanent = (i_isPermanent insertNews = Some True),
                  n_createdAt = now,
                  n_expiresAt = expiresAt\<rparr>
      in (news, st\<lparr>businessNews := businessNews st @ [news],
                    nextNewsId := nextNewsId st + 1\<rparr>))"

definition deleteBusinessNews :: "int \<Rightarrow> mem_storage \<Rightarrow> bool \<times> mem_storage" where
  "deleteBusinessNews i st =
     (case findIndex (\<lambda>news. n_id news = i) (businessNews st) of
        None \<Rightarrow> (False, st)
      | Some index \<Rightarrow> (True, st\<lparr>businessNews := splice1 index (businessNews st)\<rparr>))"

definition deleteExpiredNews :: "time \<Rightarrow> mem_storage \<Rightarrow> int \<times> mem_storage" where
  "deleteExpiredNews now st =
     (let initialLength = length (businessNews st);
          kept = filter (\<lambda>news. new_Date (n_expiresAt news) > now) (businessNews st)
      in (int initialLength - int (length kept), st\<lparr>businessNews := kept\<rparr>))"

section \<open>Decimal text\<close>

text \<open>Digits, white space and the printing of integers and of amounts in hundredths, as
  the number conversions of the runtime and of the database use them.\<close>

definition is_digit :: "char \<Rightarrow> bool" where
  "is_digit c = (c \<in> set ''0123456789'')"

definition digit_value :: "char \<Rightarrow> int" where
  "digit_value c = int (length (takeWhile (\<lambda>d. d \<noteq> c) ''0123456789''))"

definition digits_value :: "string \<Rightarrow> int" where
  "digits_value ds = foldl (\<lambda>a c. 10 * a + digit_value c) 0 ds"

function show_int :: "int \<Rightarrow> string" where
  "show_int n = (if n < 10 then [''0123456789'' ! nat n]
                 else show_int (n div 10) @ [''0123456789'' ! nat (n mod 10)])"
  by pat_completeness auto
termination
  by (relation "measure nat") auto

definition is_space :: "char \<Rightarrow> bool" where
  "is_space c = (c \<in> set [CHR 0x09, CHR 0x0A, CHR 0x0B, CHR 0x0C, CHR 0x0D, CHR '' ''])"

text \<open>An amount of \<open>c \<ge> 0\<close> hundredths, printed with two decimals.\<close>

definition cents_string :: "int \<Rightarrow> string" where
  "cents_string c =
     show_int (c div 100) @ ''.'' @
     [''0123456789'' ! nat (c div 10 mod 10), ''0123456789'' ! nat (c mod 10)]"

section \<open>The durable store (class DatabaseStorage)\<close>

text \<open>
  \<^verbatim>\<open>server/storage.ts\<close> is written against the simple variant of the schema: a product
  row has a name, a purchase price and a sale price, an announcement has no
  \<^verbatim>\<open>isPermanent\<close> column and its \<^verbatim>\<open>expiresAt\<close> is not nullable. A table is the list of
  its rows in insertion order, a \<^verbatim>\<open>serial\<close> column draws from a counter, and the
  queries the class issues are the list operations below: \<^verbatim>\<open>WHERE\<close> is \<open>filter\<close>,
  \<^verbatim>\<open>ORDER BY ... ASC\<close> a sort by the column's collation \<open>coll\<close> (a parameter, as
  \<open>localeCompare\<close> is), \<^verbatim>\<open>LIMIT 10\<close> is \<open>take 10\<close>, \<^verbatim>\<open>rowCount\<close> the number of rows
  a statement touched. \<open>dbnow\<close> is the database's clock (\<^verbatim>\<open>defaultNow()\<close>), \<open>now\<close> the
  server's.
\<close>

record product_row =
  r_id :: int
  r_name :: string
  r_purchasePrice :: string
  r_salePrice :: string
  r_createdAt :: time
  r_updatedAt :: time

record product_input_simple =
  s_name :: string
  s_purchasePrice :: string

record news_row =
  nr_id :: int
  nr_title :: string
  nr_content :: string
  nr_createdAt :: time
  nr_expiresAt :: time

record news_input_simple =
  s_title :: string
  s_content :: string

record database =
  products_table :: "product_row list"
  business_news_table :: "news_row list"
  products_id_seq :: int
  business_news_id_seq :: int

text \<open>
  The errors a statement can fail with: a second row with a name already in the table
  (SQLSTATE 23505), and a value that a column's type does not take (class 22: text that
  is not a number, a number out of the column's range).
\<close>

datatype db_error = UniqueViolation | DataException

text \<open>
  The price columns are \<^verbatim>\<open>decimal(10, 2)\<close>. The driver sends a price as text and
  the database converts it: white space around it is skipped; \<^verbatim>\<open>NaN\<close> in any case is
  stored as such; otherwise the text must be an optional sign, digits with at most one
  decimal point and at least one digit, and an optional exponent that has digits, with
  nothing after; the value is rounded to two decimals, a half away from zero, and must
  then be below \<open>10 ^ 8\<close> in magnitude. What the column returns is the rounded value
  printed with two decimals. (The input syntax is that of PostgreSQL up to version 15.)
\<close>

definition pg_exponent :: "string \<Rightarrow> (int \<times> string) option" where
  "pg_exponent s =
     (case s of
        [] \<Rightarrow> Some (0, [])
      | c # t \<Rightarrow>
          if c = CHR ''e'' \<or> c = CHR ''E'' then
            (let u = dropWhile is_space t;
                 neg = (case u of [] \<Rightarrow> False | d # v \<Rightarrow> d = CHR ''-'');
                 u' = (case u of [] \<Rightarrow> [] | d # v \<Rightarrow> if d = CHR ''-'' \<or> d = CHR ''+'' then v else u);
                 ds = takeWhile is_digit u'
             in if ds = [] then None
                else Some (if neg then - digits_value ds else digits_value ds, dropWhile is_digit u'))
          else Some (0, s))"

definition numeric_10_2 :: "string \<Rightarrow> db_error + string" where
  "numeric_10_2 s =
     (let t = dropWhile is_space s
      in if (case t of a # b # c # r \<Rightarrow> a \<in> set ''nN'' \<and> b \<in> set ''aA'' \<and> c \<in> set ''nN'' | _ \<Rightarrow> False)
         then (if list_all is_space (drop 3 t) then Inr ''NaN'' else Inl DataException)
         else
           (let neg = (case t of [] \<Rightarrow> False | c # u \<Rightarrow> c = CHR ''-'');
                t' = (case t of [] \<Rightarrow> [] | c # u \<Rightarrow> if c = CHR ''-'' \<or> c = CHR ''+'' then u else t);
                ip = takeWhile is_digit t';
                r1 = dropWhile is_digit t';
                fp = (case r1 of [] \<Rightarrow> [] | c # u \<Rightarrow> if c = CHR ''.'' then takeWhile is_digit u else []);
                r2 = (case r1 of [] \<Rightarrow> [] | c # u \<Rightarrow> if c = CHR ''.'' then dropWhile is_digit u else r1)
            in if ip = [] \<and> fp = [] then Inl DataException
               else
                 (case pg_exponent r2 of
                    None \<Rightarrow> Inl DataException
                  | Some (ex, r3) \<Rightarrow>
                      if \<not> list_all is_space r3 \<or> 1073741823 \<le> \<bar>ex\<bar> then Inl DataException
                      else
                        (let c = \<lfloor>(of_int (digits_value (ip @ fp)) :: rat)
                                   * 10 powi (ex - int (length fp) + 2) + 1 / 2\<rfloor>
                         in if 10 ^ 10 \<le> c then Inl DataException
                            else Inr ((if neg \<and> 0 < c then ''-'' else []) @ cents_string c)))))"

text \<open>
  SQL's \<^verbatim>\<open>s LIKE pattern\<close> with the default escape character: \<^verbatim>\<open>%\<close> matches any run
  of characters, \<^verbatim>\<open>_\<close> any one character, a backslash takes the next character of the
  pattern literally, every other character matches itself.
\<close>

fun like_match :: "string \<Rightarrow> string \<Rightarrow> bool" where
  "like_match [] [] = True"
| "like_match (c # s) [] = False"
| "like_match s (p # ps) =
     (if p = CHR ''%'' then
        (case s of
           [] \<Rightarrow> like_match [] ps
         | c # s' \<Rightarrow> like_match (c # s') ps \<or> like_match s' (p # ps))
      else if p = CHR ''_'' then
        (case s of [] \<Rightarrow> False | c # s' \<Rightarrow> like_match s' ps)
      else if p = CHR 0x5C then
        (case ps of
           [] \<Rightarrow> False
         | q # qs \<Rightarrow> (case s of [] \<Rightarrow> False | c # s' \<Rightarrow> c = q \<and> like_match s' qs))
      else
        (case s of [] \<Rightarrow> False | c # s' \<Rightarrow> c = p \<and> like_match s' ps))"

text \<open>The characters that \<^verbatim>\<open>LIKE\<close> does not take literally.\<close>

definition like_special :: "char \<Rightarrow> bool" where
  "like_special c = (c = CHR ''%'' \<or> c = CHR ''_'' \<or> c = CHR 0x5C)"

definition db_getProductById :: "database \<Rightarrow> int \<Rightarrow> product_row option" where
  "db_getProductById db i = find (\<lambda>row. r_id row = i) (products_table db)"

definition db_getProductByName :: "database \<Rightarrow> string \<Rightarrow> product_row option" where
  "db_getProductByName db nm = find (\<lambda>row. r_name row = nm) (products_table db)"

definition db_searchProducts ::
  "'n runtime \<Rightarrow> (string \<Rightarrow> string \<Rightarrow> int) \<Rightarrow> database \<Rightarrow> string \<Rightarrow> product_row list" where
  "db_searchProducts rt coll db query =
     take 10
       (js_sort (\<lambda>a b. coll (r_name a) (r_name b))
          (filter (\<lambda>row. like_match (r_name row) (''%'' @ toUpperCase rt query @ ''%''))
             (products_table db)))"

text \<open>
  The values of a statement are converted when they are bound, before the statement
  runs: a price the column does not take fails the call with nothing stored and no id
  drawn, also in an update that matches no row. The row that \<^verbatim>\<open>returning()\<close> hands
  back carries the prices as the column stores them.
\<close>

definition db_createProduct ::
  "('n::{plus,times,inverse}) runtime \<Rightarrow> time \<Rightarrow> time \<Rightarrow> product_input_simple \<Rightarrow> database
     \<Rightarrow> (db_error + product_row) \<times> database" where
  "db_createProduct rt dbnow now insertProduct db =
     (let purchasePrice = parseFloat rt (s_purchasePrice insertProduct);
          salePrice = toFixed2 rt (purchasePrice * lit rt ''1.2'')
      in case numeric_10_2 (s_purchasePrice insertProduct) of
           Inl e \<Rightarrow> (Inl e, db)
         | Inr purchase_price \<Rightarrow>
             (case numeric_10_2 salePrice of
                Inl e \<Rightarrow> (Inl e, db)
              | Inr sale_price \<Rightarrow>
                  (let product = \<lparr>r_id = products_id_seq db,
                                    r_name = s_name insertProduct,
                                    r_purchasePrice = purchase_price,
                                    r_salePrice = sale_price,
                                    r_createdAt = dbnow,
                                    r_updatedAt = now\<rparr>;
                       db' = db\<lparr>products_id_seq := products_id_seq db + 1\<rparr>
                   in if s_name insertProduct \<in> set (map r_name (products_table db))
                      then (Inl UniqueViolation, db')
                      else (Inr product, db'\<lparr>products_table := products_table db @ [product]\<rparr>))))"

definition db_updateProduct ::
  "('n::{plus,times,inverse}) runtime \<Rightarrow> time \<Rightarrow> int \<Rightarrow> product_input_simple \<Rightarrow> database
     \<Rightarrow> (db_error + product_row option) \<times> database" where
  "db_updateProduct rt now i patch db =
     (let purchasePrice = parseFloat rt (s_purchasePrice patch);
          salePrice = toFixed2 rt (purchasePrice * lit rt ''1.2'')
      in case numeric_10_2 (s_purchasePrice patch) of
           Inl e \<Rightarrow> (Inl e, db)
         | Inr purchase_price \<Rightarrow>
             (case numeric_10_2 salePrice of
                Inl e \<Rightarrow> (Inl e, db)
              | Inr sale_price \<Rightarrow>
                  (case findIndex (\<lambda>row. r_id row = i) (products_table db) of
                     None \<Rightarrow> (Inr None, db)
                   | Some index \<Rightarrow>
                       (let product = (products_table db ! index)
                              \<lparr>r_name := s_name patch,
                               r_purchasePrice := purchase_price,
                               r_salePrice := sale_price,
                               r_updatedAt := now\<rparr>
                        in if s_name patch \<in> set (map r_name (splice1 index (products_table db)))
                           then (Inl UniqueViolation, db)
                           else (Inr (Some product),
                                 db\<lparr>products_table := (products_table db)[index := product]\<rparr>)))))"

definition db_deleteProduct :: "int \<Rightarrow> database \<Rightarrow> bool \<times> database" where
  "db_deleteProduct i db =
     (let rowCount = length (filter (\<lambda>row. r_id row = i) (products_table db))
      in (rowCount > 0,
          db\<lparr>products_table := filter (\<lambda>row. r_id row \<noteq> i) (products_table db)\<rparr>))"

definition db_getAllBusinessNews :: "time \<Rightarrow> database \<Rightarrow> news_row list" where
  "db_getAllBusinessNews now db =
     js_sort (\<lambda>a b. nr_createdAt a - nr_createdAt b)
       (filter (\<lambda>row. now < nr_expiresAt row) (business_news_table db))"

definition db_createBusinessNews ::
  "'n runtime \<Rightarrow> time \<Rightarrow> time \<Rightarrow> news_input_simple \<Rightarrow> database \<Rightarrow> news_row \<times> database" where
  "db_createBusinessNews rt dbnow now insertNews db =
     (let expiresAt = setDate_plus rt 3 now;
          news = \<lparr>nr_id = business_news_id_seq db,
                  nr_title = s_title insertNews,
                  nr_content = s_content insertNews,
                  nr_createdAt = dbnow,
                  nr_expiresAt = expiresAt\<rparr>
      in (news, db\<lparr>business_news_table := business_news_table db @ [news],
                    business_news_id_seq := business_news_id_seq db + 1\<rparr>))"

definition db_deleteBusinessNews :: "int \<Rightarrow> database \<Rightarrow> bool \<times> database" where
  "db_deleteBusinessNews i db =
     (let rowCount = length (filter (\<lambda>row. nr_id row = i) (business_news_table db))
      in (rowCount > 0,
          db\<lparr>business_news_table := filter (\<lambda>row. nr_id row \<noteq> i) (business_news_table db)\<rparr>))"

definition db_deleteExpiredNews :: "time \<Rightarrow> database \<Rightarrow> int \<times> database" where
  "db_deleteExpiredNews now db =
     (let rowCount = length (filter (\<lambda>row. nr_expiresAt row < now) (business_news_table db))
      in (int rowCount,
          db\<lparr>business_news_table :=
               filter (\<lambda>row. \<not> nr_expiresAt row < now) (business_news_table db)\<rparr>))"

section \<open>Validation and the product routes (shared/schema.ts, server/routes.ts)\<close>

text \<open>
  A request body is a JSON object; the schemas look at seven of its keys. A key that is
  absent is \<open>None\<close>. \<^verbatim>\<open>z.string()\<close> lets a string through and nothing else,
  \<^verbatim>\<open>z.number()\<close> a number, and \<^verbatim>\<open>.optional()\<close> also an absent key. \<open>parse\<close> throws a
  \<^verbatim>\<open>ZodError\<close> where the model returns \<open>None\<close>.
\<close>

datatype json = JString string | JNumber int | JBool bool | JNull

record body =
  b_name :: "json option"
  b_barcode :: "json option"
  b_purchasePrice :: "json option"
  b_profitMargin :: "json option"
  b_buyerName :: "json option"
  b_stock :: "json option"
  b_minStock :: "json option"

fun z_string :: "json option \<Rightarrow> string option" where
  "z_string (Some (JString s)) = Some s"
| "z_string _ = None"

fun z_string_optional :: "json option \<Rightarrow> string option option" where
  "z_string_optional None = Some None"
| "z_string_optional (Some (JString s)) = Some (Some s)"
| "z_string_optional _ = None"

fun z_number_optional :: "json option \<Rightarrow> int option option" where
  "z_number_optional None = Some None"
| "z_number_optional (Some (JNumber n)) = Some (Some n)"
| "z_number_optional _ = None"

definition valid_name :: "'n runtime \<Rightarrow> string \<Rightarrow> bool" where
  "valid_name rt val = (length val \<ge> 1 \<and> val = toUpperCase rt val)"

definition valid_purchasePrice :: "('n::ord) runtime \<Rightarrow> string \<Rightarrow> bool" where
  "valid_purchasePrice rt val =
     (length val \<ge> 1 \<and> \<not> isNaN rt (parseFloat rt val) \<and> parseFloat rt val > lit rt ''0'')"

definition insertProductSchema_parse :: "('n::ord) runtime \<Rightarrow> body \<Rightarrow> product_input option" where
  "insertProductSchema_parse rt b =
     (case (z_string (b_name b), z_string_optional (b_barcode b), z_string (b_purchasePrice b),
            z_string_optional (b_profitMargin b), z_string_optional (b_buyerName b),
            z_number_optional (b_stock b), z_number_optional (b_minStock b)) of
        (Some nm, Some barcode, Some price, Some margin, Some buyer, Some stock, Some minStock) \<Rightarrow>
          if valid_name rt nm \<and> valid_purchasePrice rt price
          then Some \<lparr>i_name = nm, i_barcode = barcode, i_purchasePrice = price,
                     i_profitMargin = margin, i_buyerName = buyer,
                     i_stock = stock, i_minStock = minStock\<rparr>
          else None
      | _ \<Rightarrow> None)"

text \<open>\<^verbatim>\<open>updateProductSchema\<close> is written out a second time in the source, with the same
  fields and the same checks.\<close>

definition updateProductSchema_parse :: "('n::ord) runtime \<Rightarrow> body \<Rightarrow> product_input option" where
  "updateProductSchema_parse rt b = insertProductSchema_parse rt b"

datatype response =
  Status401
| Status400 string
| Status404 string
| Status201 product
| Status200 "product option"

text \<open>The message both routes send for a name that is taken.\<close>

definition name_taken :: string where
  "name_taken = ''Product with this name already exists''"

text \<open>\<^verbatim>\<open>POST /api/products\<close> and \<^verbatim>\<open>PUT /api/products/:id\<close>, on the in-memory store.
  \<open>authenticated\<close> is \<^verbatim>\<open>req.isAuthenticated()\<close>, \<open>idParam\<close> is \<^verbatim>\<open>req.params.id\<close>.\<close>

definition post_products ::
  "('n::{plus,times,inverse,ord}) runtime \<Rightarrow> time \<Rightarrow> bool \<Rightarrow> body \<Rightarrow> mem_storage
     \<Rightarrow> response \<times> mem_storage" where
  "post_products rt now authenticated b st =
     (if \<not> authenticated then (Status401, st)
      else case insertProductSchema_parse rt b of
             None \<Rightarrow> (Status400 ''Validation error'', st)
           | Some validatedData \<Rightarrow>
               (case getProductByName st (i_name validatedData) of
                  Some existingProduct \<Rightarrow>
                    (Status400 ''Product with this name already exists'', st)
                | None \<Rightarrow>
                    (case createProduct rt now validatedData st of
                       (product, st') \<Rightarrow> (Status201 product, st'))))"

definition put_products ::
  "('n::{plus,times,inverse,ord}) runtime \<Rightarrow> time \<Rightarrow> bool \<Rightarrow> string \<Rightarrow> body \<Rightarrow> mem_storage
     \<Rightarrow> response \<times> mem_storage" where
  "put_products rt now authenticated idParam b st =
     (if \<not> authenticated then (Status401, st)
      else case parseInt rt idParam of
             None \<Rightarrow> (Status400 ''Invalid product ID'', st)
           | Some i \<Rightarrow>
               (case updateProductSchema_parse rt b of
                  None \<Rightarrow> (Status400 ''Validation error'', st)
                | Some validatedData \<Rightarrow>
                    (case getProductById st i of
                       None \<Rightarrow> (Status404 ''Product not found'', st)
                     | Some existingProduct \<Rightarrow>
                         (case getProductByName st (i_name validatedData) of
                            Some duplicateProduct \<Rightarrow>
                              if p_id duplicateProduct \<noteq> i
                              then (Status400 ''Product with this name already exists'', st)
                              else (case updateProduct rt now i validatedData st of
                                      (product, st') \<Rightarrow> (Status200 product, st'))
                          | None \<Rightarrow>
                              (case updateProduct rt now i validatedData st of
                                 (product, st') \<Rightarrow> (Status200 product, st'))))))"

section \<open>A reference runtime: exact decimal arithmetic\<close>

text \<open>
  To run the model on concrete inputs the runtime is instantiated with the arithmetic of
  the specification's decimal type: a number is a fraction \<open>Dec a b\<close> (the value
  \<open>a / b\<close>, with \<open>b > 0\<close>) or \<open>NaN\<close>, \<open>parseFloat\<close> reads the longest prefix that is a
  plain decimal literal, \<open>toFixed(2)\<close> rounds half away from zero, \<open>toString\<close> prints
  the decimal expansion (cut after 20 places), \<open>toUpperCase\<close> maps the letters a-z,
  \<open>localeCompare\<close> compares character codes, and \<open>setDate\<close> moves a date by whole
  days of 86400000 ms (a zone without clock changes).
\<close>

datatype dec = Dec int int | NaN

instantiation dec :: "{plus,times,inverse,ord}"
begin

fun plus_dec :: "dec \<Rightarrow> dec \<Rightarrow> dec" where
  "plus_dec (Dec a b) (Dec c d) = Dec (a * d + c * b) (b * d)"
| "plus_dec _ _ = NaN"

fun times_dec :: "dec \<Rightarrow> dec \<Rightarrow> dec" where
  "times_dec (Dec a b) (Dec c d) = Dec (a * c) (b * d)"
| "times_dec _ _ = NaN"

fun divide_dec :: "dec \<Rightarrow> dec \<Rightarrow> dec" where
  "divide_dec (Dec a b) (Dec c d) =
     (if c = 0 then NaN else if c > 0 then Dec (a * d) (b * c) else Dec (- (a * d)) (- (b * c)))"
| "divide_dec _ _ = NaN"

definition inverse_dec :: "dec \<Rightarrow> dec" where
  "inverse_dec x = divide (Dec 1 1) x"

fun less_dec :: "dec \<Rightarrow> dec \<Rightarrow> bool" where
  "less_dec (Dec a b) (Dec c d) = (a * d < c * b)"
| "less_dec _ _ = False"

fun less_eq_dec :: "dec \<Rightarrow> dec \<Rightarrow> bool" where
  "less_eq_dec (Dec a b) (Dec c d) = (a * d \<le> c * b)"
| "less_eq_dec _ _ = False"

instance ..

end

definition parseFloat_dec :: "string \<Rightarrow> dec" where
  "parseFloat_dec s =
     (let s1 = dropWhile (\<lambda>c. c = CHR '' '') s;
          neg = (case s1 of [] \<Rightarrow> False | c # r \<Rightarrow> c = CHR ''-'');
          s2 = (case s1 of [] \<Rightarrow> [] | c # r \<Rightarrow> if c = CHR ''-'' \<or> c = CHR ''+'' then r else s1);
          ip = takeWhile is_digit s2;
          rest = dropWhile is_digit s2;
          fp = (case rest of [] \<Rightarrow> [] | c # r \<Rightarrow> if c = CHR ''.'' then takeWhile is_digit r else [])
      in if ip = [] \<and> fp = [] then NaN
         else Dec ((if neg then - 1 else 1) * digits_value (ip @ fp)) (10 ^ length fp))"

definition toFixed2_dec :: "dec \<Rightarrow> string" where
  "toFixed2_dec x =
     (case x of
        NaN \<Rightarrow> ''NaN''
      | Dec a b \<Rightarrow>
          (let n = (\<bar>a\<bar> * 200 + b) div (2 * b)
           in (if a < 0 then ''-'' else []) @ show_int (n div 100) @ ''.'' @
              [''0123456789'' ! nat (n div 10 mod 10), ''0123456789'' ! nat (n mod 10)]))"

function frac_digits :: "int \<Rightarrow> int \<Rightarrow> int \<Rightarrow> string" where
  "frac_digits k r b =
     (if k \<le> 0 \<or> r = 0 then []
      else (''0123456789'' ! nat (r * 10 div b)) # frac_digits (k - 1) (r * 10 mod b) b)"
  by pat_completeness auto
termination
  by (relation "measure (\<lambda>(k, r, b). nat k)") auto

definition toString_dec :: "dec \<Rightarrow> string" where
  "toString_dec x =
     (case x of
        NaN \<Rightarrow> ''NaN''
      | Dec a b \<Rightarrow>
          (let fs = frac_digits 20 (\<bar>a\<bar> mod b) b
           in (if a < 0 then ''-'' else []) @ show_int (\<bar>a\<bar> div b) @
              (if fs = [] then [] else ''.'' @ fs)))"

definition toUpperCase_ascii :: "string \<Rightarrow> string" where
  "toUpperCase_ascii s =
     map (\<lambda>c. case map_of (zip ''abcdefghijklmnopqrstuvwxyz'' ''ABCDEFGHIJKLMNOPQRSTUVWXYZ'') c of
                None \<Rightarrow> c | Some u \<Rightarrow> u) s"

fun compare_codes :: "string \<Rightarrow> string \<Rightarrow> int" where
  "compare_codes [] [] = 0"
| "compare_codes [] (b # bs) = - 1"
| "compare_codes (a # as) [] = 1"
| "compare_codes (a # as) (b # bs) =
     (if (of_char a :: nat) < of_char b then - 1
      else if (of_char b :: nat) < of_char a then 1
      else compare_codes as bs)"

definition parseInt_dec :: "string \<Rightarrow> int option" where
  "parseInt_dec s =
     (let s1 = dropWhile (\<lambda>c. c = CHR '' '') s;
          neg = (case s1 of [] \<Rightarrow> False | c # r \<Rightarrow> c = CHR ''-'');
          s2 = (case s1 of [] \<Rightarrow> [] | c # r \<Rightarrow> if c = CHR ''-'' \<or> c = CHR ''+'' then r else s1);
          ip = takeWhile is_digit s2
      in if ip = [] then None
         else Some ((if neg then - 1 else 1) * digits_value ip))"

definition decimal_runtime :: "dec runtime" where
  "decimal_runtime =
     \<lparr>parseFloat = parseFloat_dec, toFixed2 = toFixed2_dec, toString = toString_dec,
      lit = parseFloat_dec, isNaN = (\<lambda>x. x = NaN), parseInt = parseInt_dec,
      toUpperCase = toUpperCase_ascii, localeCompare = compare_codes,
      setDate_plus = (\<lambda>k d. d + k * 86400000)\<rparr>"

section \<open>The runtime's own arithmetic: IEEE 754 doubles\<close>

text \<open>
  A Number of the language is a double: a finite value (a rational of the form
  \<open>n * 2 ^ e\<close> with at most 53 significant bits), an infinity, or NaN. Negative zero is
  not told apart from zero: the program never divides by a zero and prints no zero with
  a sign. \<open>fl x\<close> rounds a rational to the nearest double, ties to the even significand;
  below \<open>2 ^ -1022\<close> the spacing of the doubles stays \<open>2 ^ -1074\<close>, and a result of
  \<open>2 ^ 1024\<close> or more is an infinity. Every arithmetic operation returns the rounded
  exact result.
\<close>

datatype jsnum = Fin rat | PInf | NInf | JNaN

text \<open>\<open>ilog b x\<close> is the \<open>e\<close> with \<open>b ^ e \<le> x < b ^ (e + 1)\<close>, for \<open>x > 0\<close> and a base
  \<open>b \<ge> 2\<close>.\<close>

definition ilog :: "nat \<Rightarrow> rat \<Rightarrow> int" where
  "ilog b x =
     (case quotient_of x of
        (n, d) \<Rightarrow>
          (let e = int (floorlog b (nat n)) - int (floorlog b (nat d))
           in if of_nat b powi e \<le> x then e else e - 1))"

text \<open>Rounding to the nearest integer, a tie to the even one.\<close>

definition rne :: "rat \<Rightarrow> int" where
  "rne y =
     (let f = \<lfloor>y\<rfloor>; d = y - of_int f
      in if d < 1 / 2 then f else if 1 / 2 < d then f + 1 else if even f then f else f + 1)"

definition overflow_threshold :: rat where
  "overflow_threshold = 2 powi 1024"

definition fl :: "rat \<Rightarrow> jsnum" where
  "fl x =
     (if x = 0 then Fin 0
      else
        (let e = max (ilog 2 \<bar>x\<bar>) (- 1022);
             ulp = 2 powi (e - 52);
             r = of_int (rne (\<bar>x\<bar> / ulp)) * ulp
         in if overflow_threshold \<le> r then (if 0 < x then PInf else NInf)
            else Fin (if 0 < x then r else - r)))"

instantiation jsnum :: "{plus,times,inverse,ord}"
begin

fun plus_jsnum :: "jsnum \<Rightarrow> jsnum \<Rightarrow> jsnum" where
  "plus_jsnum (Fin a) (Fin b) = fl (a + b)"
| "plus_jsnum JNaN y = JNaN"
| "plus_jsnum x JNaN = JNaN"
| "plus_jsnum PInf NInf = JNaN"
| "plus_jsnum NInf PInf = JNaN"
| "plus_jsnum PInf y = PInf"
| "plus_jsnum x PInf = PInf"
| "plus_jsnum NInf y = NInf"
| "plus_jsnum x NInf = NInf"

fun times_jsnum :: "jsnum \<Rightarrow> jsnum \<Rightarrow> jsnum" where
  "times_jsnum (Fin a) (Fin b) = fl (a * b)"
| "times_jsnum JNaN y = JNaN"
| "times_jsnum x JNaN = JNaN"
| "times_jsnum (Fin a) PInf = (if a = 0 then JNaN else if 0 < a then PInf else NInf)"
| "times_jsnum (Fin a) NInf = (if a = 0 then JNaN else if 0 < a then NInf else PInf)"
| "times_jsnum PInf (Fin b) = (if b = 0 then JNaN else if 0 < b then PInf else NInf)"
| "times_jsnum NInf (Fin b) = (if b = 0 then JNaN else if 0 < b then NInf else PInf)"
| "times_jsnum PInf PInf = PInf"
| "times_jsnum NInf NInf = PInf"
| "times_jsnum PInf NInf = NInf"
| "times_jsnum NInf PInf = NInf"

fun divide_jsnum :: "jsnum \<Rightarrow> jsnum \<Rightarrow> jsnum" where
  "divide_jsnum (Fin a) (Fin b) =
     (if b = 0 then (if a = 0 then JNaN else if 0 < a then PInf else NInf) else fl (a / b))"
| "divide_jsnum JNaN y = JNaN"
| "divide_jsnum x JNaN = JNaN"
| "divide_jsnum (Fin a) y = Fin 0"
| "divide_jsnum PInf (Fin b) = (if 0 \<le> b then PInf else NInf)"
| "divide_jsnum NInf (Fin b) = (if 0 \<le> b then NInf else PInf)"
| "divide_jsnum x y = JNaN"

definition inverse_jsnum :: "jsnum \<Rightarrow> jsnum" where
  "inverse_jsnum x = divide (Fin 1) x"

fun less_jsnum :: "jsnum \<Rightarrow> jsnum \<Rightarrow> bool" where
  "less_jsnum (Fin a) (Fin b) = (a < b)"
| "less_jsnum JNaN y = False"
| "less_jsnum x JNaN = False"
| "less_jsnum x NInf = False"
| "less_jsnum NInf y = True"
| "less_jsnum PInf y = False"
| "less_jsnum x PInf = True"

definition less_eq_jsnum :: "jsnum \<Rightarrow> jsnum \<Rightarrow> bool" where
  "less_eq_jsnum x y = (less x y \<or> (x = y \<and> x \<noteq> JNaN))"

instance ..

end

subsection \<open>Reading a number: \<open>parseFloat\<close>\<close>

text \<open>
  \<^verbatim>\<open>parseFloat\<close> skips leading white space and reads the longest prefix that is a
  decimal literal: an optional sign, then \<^verbatim>\<open>Infinity\<close>, or digits with an optional
  fraction and an optional exponent. \<open>numeral_prefix s\<close> is the exact value of that
  prefix (\<open>None\<close> for \<^verbatim>\<open>Infinity\<close> after the sign), and \<open>None\<close> at the top where
  there is no such prefix; the Number is that value rounded.
\<close>

definition exponent_part :: "string \<Rightarrow> int" where
  "exponent_part s =
     (case s of
        [] \<Rightarrow> 0
      | c # t \<Rightarrow>
          if c = CHR ''e'' \<or> c = CHR ''E'' then
            (let neg = (case t of [] \<Rightarrow> False | d # u \<Rightarrow> d = CHR ''-'');
                 t' = (case t of [] \<Rightarrow> [] | d # u \<Rightarrow> if d = CHR ''-'' \<or> d = CHR ''+'' then u else t);
                 ds = takeWhile is_digit t'
             in if ds = [] then 0 else (if neg then - digits_value ds else digits_value ds))
          else 0)"

definition unsigned_prefix :: "string \<Rightarrow> rat option option" where
  "unsigned_prefix s =
     (if prefix ''Infinity'' s then Some None
      else
        (let ip = takeWhile is_digit s;
             r1 = dropWhile is_digit s;
             fp = (case r1 of [] \<Rightarrow> [] | c # t \<Rightarrow> if c = CHR ''.'' then takeWhile is_digit t else []);
             r2 = (case r1 of [] \<Rightarrow> [] | c # t \<Rightarrow> if c = CHR ''.'' then dropWhile is_digit t else r1)
         in if ip = [] \<and> fp = [] then None
            else Some (Some (of_int (digits_value (ip @ fp))
                             * 10 powi (exponent_part r2 - int (length fp))))))"

definition numeral_prefix :: "string \<Rightarrow> rat option option" where
  "numeral_prefix s =
     (let t = dropWhile is_space s;
          neg = (case t of [] \<Rightarrow> False | c # u \<Rightarrow> c = CHR ''-'');
          t' = (case t of [] \<Rightarrow> [] | c # u \<Rightarrow> if c = CHR ''-'' \<or> c = CHR ''+'' then u else t)
      in case unsigned_prefix t' of
           None \<Rightarrow> None
         | Some None \<Rightarrow> Some None
         | Some (Some q) \<Rightarrow> Some (Some (if neg then - q else q)))"

text \<open>\<open>numeral_value s = Some q\<close>: the string starts with a numeral, and \<open>q\<close> is the
  number that numeral denotes.\<close>

definition numeral_value :: "string \<Rightarrow> rat option" where
  "numeral_value s = (case numeral_prefix s of Some (Some q) \<Rightarrow> Some q | _ \<Rightarrow> None)"

definition parseFloat_double :: "string \<Rightarrow> jsnum" where
  "parseFloat_double s =
     (case numeral_prefix s of
        None \<Rightarrow> JNaN
      | Some None \<Rightarrow>
          (case dropWhile is_space s of [] \<Rightarrow> PInf | c # u \<Rightarrow> if c = CHR ''-'' then NInf else PInf)
      | Some (Some q) \<Rightarrow> fl q)"

subsection \<open>Printing a number: \<open>toString\<close> and \<open>toFixed(2)\<close>\<close>

text \<open>
  \<^verbatim>\<open>toString\<close> prints the shortest decimal that reads back as the same double, and the
  one nearest to it where several are as short. \<open>shortest_digits x n k\<close> tries
  \<open>k\<close>, \<open>k + 1\<close>, ... digits (17 always suffice) and returns the digits as an integer
  \<open>s\<close> and the exponent \<open>t\<close> of its last digit: the decimal is \<open>s * 10 ^ t\<close>.
\<close>

function shortest_digits :: "rat \<Rightarrow> int \<Rightarrow> int \<Rightarrow> int \<times> int" where
  "shortest_digits x n k =
     (let scale = 10 powi (n - k);
          y = x / scale;
          lo = \<lfloor>y\<rfloor>;
          hi = \<lceil>y\<rceil>;
          lo_ok = (fl (of_int lo * scale) = Fin x);
          hi_ok = (fl (of_int hi * scale) = Fin x)
      in if 17 \<le> k then (rne y, n - k)
         else if lo_ok \<and> hi_ok then
           (if y - of_int lo < of_int hi - y then (lo, n - k)
            else if of_int hi - y < y - of_int lo then (hi, n - k)
            else if even lo then (lo, n - k) else (hi, n - k))
         else if lo_ok then (lo, n - k)
         else if hi_ok then (hi, n - k)
         else shortest_digits x n (k + 1))"
  by pat_completeness auto
termination
  by (relation "measure (\<lambda>(x, n, k). nat (17 - k))") auto

text \<open>Trailing zeros of the digits move into the exponent.\<close>

function strip_zeros :: "int \<Rightarrow> int \<Rightarrow> int \<times> int" where
  "strip_zeros s t = (if 0 < s \<and> s mod 10 = 0 then strip_zeros (s div 10) (t + 1) else (s, t))"
  by pat_completeness auto
termination
  by (relation "measure (\<lambda>(s, t). nat s)") auto

definition toString_pos :: "rat \<Rightarrow> string" where
  "toString_pos x =
     (let n0 = ilog 10 x + 1;
          st = (case shortest_digits x n0 1 of (s, t) \<Rightarrow> strip_zeros s t);
          ds = show_int (fst st);
          k = int (length ds);
          n = snd st + k
      in if k \<le> n \<and> n \<le> 21 then ds @ replicate (nat (n - k)) (CHR ''0'')
         else if 0 < n \<and> n \<le> 21 then take (nat n) ds @ ''.'' @ drop (nat n) ds
         else if - 6 < n \<and> n \<le> 0 then ''0.'' @ replicate (nat (- n)) (CHR ''0'') @ ds
         else (if k = 1 then ds else take 1 ds @ ''.'' @ drop 1 ds) @ ''e''
              @ (if 0 \<le> n - 1 then ''+'' else ''-'') @ show_int \<bar>n - 1\<bar>)"

definition toString_double :: "jsnum \<Rightarrow> string" where
  "toString_double v =
     (case v of
        JNaN \<Rightarrow> ''NaN''
      | PInf \<Rightarrow> ''Infinity''
      | NInf \<Rightarrow> ''-Infinity''
      | Fin x \<Rightarrow>
          if x = 0 then ''0''
          else if x < 0 then ''-'' @ toString_pos (- x)
          else toString_pos x)"

text \<open>\<^verbatim>\<open>x.toFixed(2)\<close>: the hundredths nearest to the double, the larger of two that are
  equally near; from \<open>10 ^ 21\<close> on, \<^verbatim>\<open>toString\<close>.\<close>

definition toFixed2_double :: "jsnum \<Rightarrow> string" where
  "toFixed2_double v =
     (case v of
        Fin x \<Rightarrow>
          if 10 ^ 21 \<le> \<bar>x\<bar> then toString_double v
          else (if x < 0 then ''-'' else []) @ cents_string \<lfloor>\<bar>x\<bar> * 100 + 1 / 2\<rfloor>
      | _ \<Rightarrow> toString_double v)"

definition double_runtime :: "jsnum runtime" where
  "double_runtime =
     \<lparr>parseFloat = parseFloat_double, toFixed2 = toFixed2_double, toString = toString_double,
      lit = parseFloat_double, isNaN = (\<lambda>x. x = JNaN), parseInt = parseInt_dec,
      toUpperCase = toUpperCase_ascii, localeCompare = compare_codes,
      setDate_plus = (\<lambda>k d. d + k * 86400000)\<rparr>"

section \<open>The specification's functions\<close>

text \<open>
  Written from the words of the specification (sections 3 and 4), to compare the code
  with: the pricing rule \<open>round(purchasePrice * (1 + profitMargin / 100), 2)\<close>, the
  expiry rule, and the two predicates on announcements. In \<open>derive_sale_price\<close> the
  product, the sum, the quotient and the rounding to two decimals are the runtime's;
  \<open>round_cents\<close> is the rounding of the exact amount, in hundredths.
\<close>

definition derive_sale_price :: "('n::{plus,times,inverse}) runtime \<Rightarrow> 'n \<Rightarrow> 'n \<Rightarrow> string" where
  "derive_sale_price rt purchasePrice profitMargin =
     toFixed2 rt (purchasePrice * (lit rt ''1'' + profitMargin / lit rt ''100''))"

definition round_cents :: "rat \<Rightarrow> int" where
  "round_cents x = \<lfloor>x * 100 + 1 / 2\<rfloor>"

definition compute_expiry :: "'n runtime \<Rightarrow> time \<Rightarrow> bool \<Rightarrow> time option" where
  "compute_expiry rt createdAt isPermanent =
     (if isPermanent then None else Some (setDate_plus rt 3 createdAt))"

definition is_active :: "time \<Rightarrow> business_news \<Rightarrow> bool" where
  "is_active now news =
     (n_isPermanent news \<or> (case n_expiresAt news of None \<Rightarrow> False | Some e \<Rightarrow> now < e))"

definition is_expired :: "time \<Rightarrow> business_news \<Rightarrow> bool" where
  "is_expired now news =
     (\<not> n_isPermanent news \<and> (case n_expiresAt news of None \<Rightarrow> False | Some e \<Rightarrow> e \<le> now))"

section \<open>Reachable stores and their invariants\<close>

text \<open>The stores the class can be in: the fresh one, and what its mutating methods make
  of a reachable one.\<close>

inductive reachable :: "('n::{plus,times,inverse}) runtime \<Rightarrow> mem_storage \<Rightarrow> bool"
  for rt :: "'n runtime" where
  r_new: "reachable rt new_MemStorage"
| r_createProduct:
    "reachable rt st \<Longrightarrow> reachable rt (snd (createProduct rt now inp st))"
| r_updateProduct:
    "reachable rt st \<Longrightarrow> reachable rt (snd (updateProduct rt now i patch st))"
| r_deleteProduct:
    "reachable rt st \<Longrightarrow> reachable rt (snd (deleteProduct i st))"
| r_createBusinessNews:
    "reachable rt st \<Longrightarrow> reachable rt (snd (createBusinessNews rt now now2 insertNews st))"
| r_deleteBusinessNews:
    "reachable rt st \<Longrightarrow> reachable rt (snd (deleteBusinessNews i st))"
| r_deleteExpiredNews:
    "reachable rt st \<Longrightarrow> reachable rt (snd (deleteExpiredNews now st))"

definition ids_inv :: "mem_storage \<Rightarrow> bool" where
  "ids_inv st =
     ((\<forall>p \<in> set (products st). p_id p < nextProductId st) \<and>
      distinct (map p_id (products st)) \<and>
      (\<forall>n \<in> set (businessNews st). n_id n < nextNewsId st) \<and>
      distinct (map n_id (businessNews st)))"

definition names_unique :: "mem_storage \<Rightarrow> bool" where
  "names_unique st = distinct (map p_name (products st))"

section \<open>Concrete stores and inputs\<close>

text \<open>The inputs at which the theorems below are run.\<close>

definition falsy_input :: product_input where
  "falsy_input = \<lparr>i_name = ''ARROZ'', i_barcode = Some [], i_purchasePrice = ''100.00'',
     i_profitMargin = Some ''20'', i_buyerName = Some [], i_stock = Some 0, i_minStock = Some 0\<rparr>"

definition arroz :: product where
  "arroz = \<lparr>p_id = 1, p_name = ''ARROZ'', p_barcode = Some ''7701'', p_purchasePrice = ''49.99'',
     p_salePrice = ''64.99'', p_profitMargin = ''30'', p_buyerName = None, p_stock = Some 5,
     p_minStock = None, p_createdAt = 1000, p_updatedAt = 1000\<rparr>"

definition azucar :: product where
  "azucar = \<lparr>p_id = 2, p_name = ''AZUCAR'', p_barcode = None, p_purchasePrice = ''100.00'',
     p_salePrice = ''120.00'', p_profitMargin = ''20'', p_buyerName = Some ''ANA'', p_stock = None,
     p_minStock = None, p_createdAt = 2000, p_updatedAt = 2000\<rparr>"

definition store2 :: mem_storage where
  "store2 = \<lparr>products = [arroz, azucar], businessNews = [], nextProductId = 3, nextNewsId = 1\<rparr>"

definition db2 :: database where
  "db2 = \<lparr>products_table =
            [\<lparr>r_id = 1, r_name = ''ARROZ'', r_purchasePrice = ''49.99'', r_salePrice = ''59.99'',
              r_createdAt = 1000, r_updatedAt = 1000\<rparr>,
             \<lparr>r_id = 2, r_name = ''AZUCAR'', r_purchasePrice = ''100.00'', r_salePrice = ''120.00'',
              r_createdAt = 2000, r_updatedAt = 2000\<rparr>],
          business_news_table = [], products_id_seq = 3, business_news_id_seq = 1\<rparr>"

definition arroz_input :: product_input where
  "arroz_input = \<lparr>i_name = ''ARROZ'', i_barcode = Some ''7701'', i_purchasePrice = ''49.99'',
     i_profitMargin = Some ''30'', i_buyerName = None, i_stock = Some 5, i_minStock = None\<rparr>"

definition store1 :: mem_storage where
  "store1 = snd (createProduct decimal_runtime 1000 arroz_input new_MemStorage)"


definition patch_no_margin :: product_input where
  "patch_no_margin = \<lparr>i_name = ''ARROZ'', i_barcode = None, i_purchasePrice = ''10.00'',
     i_profitMargin = None, i_buyerName = Some ''LUIS'', i_stock = Some 0, i_minStock = None\<rparr>"

definition patch_empty_barcode :: product_input where
  "patch_empty_barcode = \<lparr>i_name = ''ARROZ'', i_barcode = Some [], i_purchasePrice = ''10.00'',
     i_profitMargin = Some ''20'', i_buyerName = None, i_stock = None, i_minStock = None\<rparr>"

definition expired_news :: business_news where
  "expired_news = \<lparr>n_id = 1, n_title = ''CIERRE'', n_content = ''LUNES'', n_isPermanent = False,
     n_createdAt = 1000, n_expiresAt = Some 259201000\<rparr>"

definition permanent_news :: business_news where
  "permanent_news = \<lparr>n_id = 2, n_title = ''HORARIO'', n_content = ''8 A 18'', n_isPermanent = True,
     n_createdAt = 3000, n_expiresAt = None\<rparr>"

definition fresh_news :: business_news where
  "fresh_news = \<lparr>n_id = 3, n_title = ''OFERTA'', n_content = ''ARROZ'', n_isPermanent = False,
     n_createdAt = 2000, n_expiresAt = Some 259202000\<rparr>"

definition news_store :: mem_storage where
  "news_store = \<lparr>products = [], businessNews = [expired_news, permanent_news, fresh_news],
     nextProductId = 1, nextNewsId = 4\<rparr>"

definition news_db :: database where
  "news_db = \<lparr>products_table = [],
     business_news_table =
       [\<lparr>nr_id = 1, nr_title = ''CIERRE'', nr_content = ''LUNES'', nr_createdAt = 1000,
         nr_expiresAt = 259201000\<rparr>,
        \<lparr>nr_id = 2, nr_title = ''OFERTA'', nr_content = ''ARROZ'', nr_createdAt = 2000,
         nr_expiresAt = 259202000\<rparr>],
     products_id_seq = 1, business_news_id_seq = 3\<rparr>"

definition oferta :: news_input where
  "oferta = \<lparr>i_title = ''OFERTA'', i_content = ''ARROZ'', i_isPermanent = None\<rparr>"

definition azucar_body :: body where
  "azucar_body = \<lparr>b_name = Some (JString ''AZUCAR''), b_barcode = None,
     b_purchasePrice = Some (JString ''100.00''), b_profitMargin = None, b_buyerName = None,
     b_stock = None, b_minStock = None\<rparr>"

definition azucar_input :: product_input where
  "azucar_input = \<lparr>i_name = ''AZUCAR'', i_barcode = None, i_purchasePrice = ''100.00'',
     i_profitMargin = None, i_buyerName = None, i_stock = None, i_minStock = None\<rparr>"


definition patch_margin_2000 :: product_input where
  "patch_margin_2000 = \<lparr>i_name = ''ARROZ'', i_barcode = None, i_purchasePrice = ''10.00'',
     i_profitMargin = Some ''20.00'', i_buyerName = None, i_stock = None, i_minStock = None\<rparr>"

section \<open>Lists: \<open>find\<close>, \<open>findIndex\<close>, \<open>splice\<close>\<close>

lemma findIndex_None_iff: "findIndex P xs = None \<longleftrightarrow> (\<forall>x \<in> set xs. \<not> P x)"
  by (induction xs) auto

lemma findIndex_Some:
  "findIndex P xs = Some k \<Longrightarrow> k < length xs \<and> P (xs ! k) \<and> (\<forall>j < k. \<not> P (xs ! j))"
proof (induction xs arbitrary: k)
  case Nil
  then show ?case by simp
next
  case (Cons x xs)
  show ?case
  proof (cases "P x")
    case True
    with Cons.prems show ?thesis by simp
  next
    case False
    with Cons.prems obtain k' where k': "findIndex P xs = Some k'" "k = Suc k'"
      by auto
    from Cons.IH [OF k'(1)] False k'(2) show ?thesis
      by (auto simp: nth_Cons less_Suc_eq_0_disj)
  qed
qed

lemma find_findIndex:
  "find P xs = (case findIndex P xs of None \<Rightarrow> None | Some k \<Rightarrow> Some (xs ! k))"
  by (induction xs) (auto split: option.splits)

lemma find_Some_mem: "find P xs = Some x \<Longrightarrow> x \<in> set xs \<and> P x"
  by (induction xs) (auto split: if_splits)

lemma find_None_iff2: "find P xs = None \<longleftrightarrow> (\<forall>x \<in> set xs. \<not> P x)"
  by (induction xs) auto

lemma find_distinct_key:
  "distinct (map f xs) \<Longrightarrow> x \<in> set xs \<Longrightarrow> find (\<lambda>y. f y = f x) xs = Some x"
  by (induction xs) (auto simp: image_iff)

lemma set_splice1: "set (splice1 k xs) \<subseteq> set xs"
  unfolding splice1_def by (auto dest: in_set_takeD in_set_dropD)

lemma splice1_filter:
  "distinct (map f xs) \<Longrightarrow> findIndex (\<lambda>y. f y = a) xs = Some k \<Longrightarrow>
   splice1 k xs = filter (\<lambda>y. f y \<noteq> a) xs"
proof (induction xs arbitrary: k)
  case Nil
  then show ?case by simp
next
  case (Cons x xs)
  show ?case
  proof (cases "f x = a")
    case True
    with Cons.prems have k: "k = 0" by simp
    from Cons.prems(1) True have "\<forall>y \<in> set xs. f y \<noteq> a" by (auto simp: image_iff)
    then have "filter (\<lambda>y. f y \<noteq> a) xs = xs" by (simp add: filter_id_conv)
    with True k show ?thesis by (simp add: splice1_def)
  next
    case False
    with Cons.prems obtain k' where k': "findIndex (\<lambda>y. f y = a) xs = Some k'" "k = Suc k'"
      by auto
    from Cons.prems(1) have "distinct (map f xs)" by simp
    from Cons.IH [OF this k'(1)] False k'(2) show ?thesis
      by (simp add: splice1_def)
  qed
qed

section \<open>Creating a product\<close>

lemma find_append_fresh:
  "\<forall>x \<in> set xs. \<not> P x \<Longrightarrow> P y \<Longrightarrow> find P (xs @ [y]) = Some y"
  by (induction xs) auto

lemma createProduct_id: "p_id (fst (createProduct rt now inp st)) = nextProductId st"
  by (simp add: createProduct_def Let_def)

lemma createProduct_products:
  "products (snd (createProduct rt now inp st)) = products st @ [fst (createProduct rt now inp st)]"
  by (simp add: createProduct_def Let_def)

lemma createProduct_get:
  assumes "ids_inv st"
  shows "getProductById (snd (createProduct rt now inp st)) (nextProductId st)
           = Some (fst (createProduct rt now inp st))"
proof -
  from assms have "\<forall>q \<in> set (products st). \<not> p_id q = nextProductId st"
    by (auto simp: ids_inv_def)
  then show ?thesis
    unfolding getProductById_def createProduct_products
    by (rule find_append_fresh) (simp add: createProduct_id)
qed

text \<open>
  Claim C10. In the in-memory store, \<open>createProduct\<close> stores \<^verbatim>\<open>null\<close> for an
  optional field that is supplied with a falsy value: a stock or minimum stock of 0, an
  empty barcode or buyer name. The product that a following \<open>getProductById\<close> returns
  is the created one, so it holds \<^verbatim>\<open>null\<close> there and not 0 or the empty string.
  (\<open>ids_inv\<close> holds of every reachable store.)
\<close>

theorem createProduct_falsy_to_null:
  assumes "ids_inv st"
  shows "getProductById (snd (createProduct rt now inp st)) (nextProductId st)
           = Some (fst (createProduct rt now inp st))
         \<and> (i_stock inp = Some 0 \<longrightarrow> p_stock (fst (createProduct rt now inp st)) = None)
         \<and> (i_minStock inp = Some 0 \<longrightarrow> p_minStock (fst (createProduct rt now inp st)) = None)
         \<and> (i_barcode inp = Some [] \<longrightarrow> p_barcode (fst (createProduct rt now inp st)) = None)
         \<and> (i_buyerName inp = Some [] \<longrightarrow> p_buyerName (fst (createProduct rt now inp st)) = None)"
proof -
  have "i_stock inp = Some 0 \<longrightarrow> p_stock (fst (createProduct rt now inp st)) = None"
    and "i_minStock inp = Some 0 \<longrightarrow> p_minStock (fst (createProduct rt now inp st)) = None"
    and "i_barcode inp = Some [] \<longrightarrow> p_barcode (fst (createProduct rt now inp st)) = None"
    and "i_buyerName inp = Some [] \<longrightarrow> p_buyerName (fst (createProduct rt now inp st)) = None"
    by (simp_all add: createProduct_def Let_def or_str_def or_num_def)
  with createProduct_get [OF assms, of rt now inp] show ?thesis
    by blast
qed

lemma ids_inv_new: "ids_inv new_MemStorage"
  by (simp add: ids_inv_def new_MemStorage_def)


theorem createProduct_falsy_to_null_witness:
  "ids_inv new_MemStorage
   \<and> i_stock falsy_input = Some 0 \<and> i_minStock falsy_input = Some 0
   \<and> i_barcode falsy_input = Some [] \<and> i_buyerName falsy_input = Some []
   \<and> getProductById (snd (createProduct decimal_runtime 1000 falsy_input new_MemStorage)) 1
       = Some (fst (createProduct decimal_runtime 1000 falsy_input new_MemStorage))
   \<and> p_stock (fst (createProduct decimal_runtime 1000 falsy_input new_MemStorage)) = None
   \<and> p_minStock (fst (createProduct decimal_runtime 1000 falsy_input new_MemStorage)) = None
   \<and> p_barcode (fst (createProduct decimal_runtime 1000 falsy_input new_MemStorage)) = None
   \<and> p_buyerName (fst (createProduct decimal_runtime 1000 falsy_input new_MemStorage)) = None"
proof -
  have next1: "nextProductId new_MemStorage = 1"
    by (simp add: new_MemStorage_def)
  have inp: "i_stock falsy_input = Some 0" "i_minStock falsy_input = Some 0"
    "i_barcode falsy_input = Some []" "i_buyerName falsy_input = Some []"
    by (simp_all add: falsy_input_def)
  from createProduct_falsy_to_null [OF ids_inv_new, of decimal_runtime 1000 falsy_input]
  show ?thesis
    by (simp add: ids_inv_new next1 inp)
qed

section \<open>The invariant of the identifiers\<close>

lemma distinct_map_list_update:
  assumes "distinct (map f xs)" "k < length xs" "f y = f (xs ! k)"
  shows "distinct (map f (xs[k := y]))"
proof -
  have "map f (xs[k := y]) = (map f xs)[k := map f xs ! k]"
    using assms by (simp add: map_update)
  also have "\<dots> = map f xs"
    by (rule list_update_id)
  finally show ?thesis
    using assms by simp
qed

lemma distinct_splice1: "distinct ys \<Longrightarrow> distinct (splice1 k ys)"
proof -
  assume "distinct ys"
  then have "distinct (take k ys @ drop k ys)" by simp
  then have d: "distinct (take k ys)" "set (take k ys) \<inter> set (drop k ys) = {}"
    by (simp_all only: distinct_append)
  have "set (drop (Suc k) ys) \<subseteq> set (drop k ys)"
    by (rule set_drop_subset_set_drop) simp
  with d \<open>distinct ys\<close> show ?thesis
    unfolding splice1_def by (auto simp: distinct_drop)
qed

lemma map_splice1: "map f (splice1 k xs) = splice1 k (map f xs)"
  by (simp add: splice1_def take_map drop_map)

lemma distinct_map_splice1: "distinct (map f xs) \<Longrightarrow> distinct (map f (splice1 k xs))"
  by (simp add: map_splice1 distinct_splice1)

lemma createProduct_snd:
  "snd (createProduct rt now inp st)
     = st\<lparr>products := products st @ [fst (createProduct rt now inp st)],
          nextProductId := nextProductId st + 1\<rparr>"
  by (simp add: createProduct_def Let_def)

lemma updateProduct_None:
  "findIndex (\<lambda>product. p_id product = i) (products st) = None \<Longrightarrow>
   updateProduct rt now i patch st = (None, st)"
  by (simp add: updateProduct_def)

lemma updateProduct_Some:
  assumes "findIndex (\<lambda>product. p_id product = i) (products st) = Some k"
  shows "\<exists>y. updateProduct rt now i patch st = (Some y, st\<lparr>products := (products st)[k := y]\<rparr>)
           \<and> p_id y = p_id (products st ! k)"
  using assms by (simp add: updateProduct_def Let_def)

lemma ids_inv_createProduct: "ids_inv st \<Longrightarrow> ids_inv (snd (createProduct rt now inp st))"
  unfolding createProduct_snd
  by (auto simp: ids_inv_def createProduct_id)

lemma ids_inv_updateProduct: "ids_inv st \<Longrightarrow> ids_inv (snd (updateProduct rt now i patch st))"
proof (cases "findIndex (\<lambda>product. p_id product = i) (products st)")
  case None
  assume "ids_inv st"
  with None show ?thesis by (simp add: updateProduct_None)
next
  case (Some k)
  assume inv: "ids_inv st"
  from findIndex_Some [OF Some] have k: "k < length (products st)" by simp
  from updateProduct_Some [OF Some, of rt now patch]
  obtain y where st': "snd (updateProduct rt now i patch st) = st\<lparr>products := (products st)[k := y]\<rparr>"
    and y: "p_id y = p_id (products st ! k)"
    by auto
  have "distinct (map p_id ((products st)[k := y]))"
    using inv k y by (intro distinct_map_list_update) (simp_all add: ids_inv_def)
  moreover have "\<forall>p \<in> set ((products st)[k := y]). p_id p < nextProductId st"
  proof
    fix p assume "p \<in> set ((products st)[k := y])"
    then have "p = y \<or> p \<in> set (products st)"
      using set_update_subset_insert [of "products st" k y] by auto
    moreover have "p_id y < nextProductId st"
      using inv k y by (simp add: ids_inv_def)
    ultimately show "p_id p < nextProductId st"
      using inv by (auto simp: ids_inv_def)
  qed
  ultimately show ?thesis
    using inv by (simp add: st' ids_inv_def)
qed

lemma ids_inv_deleteProduct: "ids_inv st \<Longrightarrow> ids_inv (snd (deleteProduct i st))"
  using set_splice1 [of _ "products st"]
  by (auto simp: ids_inv_def deleteProduct_def distinct_map_splice1 split: option.splits)

lemma ids_inv_createBusinessNews:
  "ids_inv st \<Longrightarrow> ids_inv (snd (createBusinessNews rt now now2 insertNews st))"
  by (auto simp: ids_inv_def createBusinessNews_def Let_def)

lemma ids_inv_deleteBusinessNews: "ids_inv st \<Longrightarrow> ids_inv (snd (deleteBusinessNews i st))"
  using set_splice1 [of _ "businessNews st"]
  by (auto simp: ids_inv_def deleteBusinessNews_def distinct_map_splice1 split: option.splits)

lemma ids_inv_deleteExpiredNews: "ids_inv st \<Longrightarrow> ids_inv (snd (deleteExpiredNews now st))"
  by (auto simp: ids_inv_def deleteExpiredNews_def Let_def distinct_map_filter)

lemma reachable_ids_inv: "reachable rt st \<Longrightarrow> ids_inv st"
  by (induction rule: reachable.induct)
     (simp_all add: ids_inv_new ids_inv_createProduct ids_inv_updateProduct ids_inv_deleteProduct
        ids_inv_createBusinessNews ids_inv_deleteBusinessNews ids_inv_deleteExpiredNews)

section \<open>Deleting a product\<close>


lemma deleteProduct_eq:
  assumes "distinct (map p_id (products st))"
  shows "deleteProduct i st =
           ((\<exists>p \<in> set (products st). p_id p = i),
            st\<lparr>products := filter (\<lambda>p. p_id p \<noteq> i) (products st)\<rparr>)"
proof (cases "findIndex (\<lambda>product. p_id product = i) (products st)")
  case None
  then have no: "\<forall>p \<in> set (products st). p_id p \<noteq> i"
    by (simp add: findIndex_None_iff)
  then have "filter (\<lambda>p. p_id p \<noteq> i) (products st) = products st"
    by (simp add: filter_id_conv)
  with None no show ?thesis
    by (simp add: deleteProduct_def)
next
  case (Some k)
  from findIndex_Some [OF Some] have "products st ! k \<in> set (products st)" "p_id (products st ! k) = i"
    by simp_all
  then have ex: "\<exists>p \<in> set (products st). p_id p = i" by blast
  from splice1_filter [OF assms Some] Some ex show ?thesis
    by (simp add: deleteProduct_def)
qed

lemma db_deleteProduct_eq:
  "db_deleteProduct i db =
     ((\<exists>row \<in> set (products_table db). r_id row = i),
      db\<lparr>products_table := filter (\<lambda>row. r_id row \<noteq> i) (products_table db)\<rparr>)"
  by (simp add: db_deleteProduct_def filter_empty_conv)

text \<open>
  Claim C9. \<open>deleteProduct i\<close> returns true exactly when a product with the identifier
  \<open>i\<close> is stored, and then that product is removed and nothing else changes; for an
  identifier that is not stored (never was, or is already deleted) it returns false and
  the store is unchanged. The function has no failing branch. After a delete the
  identifier is gone, so a second delete returns false and changes nothing. The same
  holds of the durable store. (\<open>ids_inv\<close> holds of every reachable store.)
\<close>

theorem deleteProduct_true_iff_existed:
  assumes "ids_inv st"
  shows "deleteProduct i st =
           ((\<exists>p \<in> set (products st). p_id p = i),
            st\<lparr>products := filter (\<lambda>p. p_id p \<noteq> i) (products st)\<rparr>)
         \<and> (\<not> (\<exists>p \<in> set (products st). p_id p = i) \<longrightarrow> deleteProduct i st = (False, st))
         \<and> getProductById (snd (deleteProduct i st)) i = None
         \<and> deleteProduct i (snd (deleteProduct i st)) = (False, snd (deleteProduct i st))
         \<and> db_deleteProduct i db =
             ((\<exists>row \<in> set (products_table db). r_id row = i),
              db\<lparr>products_table := filter (\<lambda>row. r_id row \<noteq> i) (products_table db)\<rparr>)
         \<and> db_deleteProduct i (snd (db_deleteProduct i db)) = (False, snd (db_deleteProduct i db))"
proof -
  from assms have d: "distinct (map p_id (products st))"
    by (simp add: ids_inv_def)
  let ?st' = "snd (deleteProduct i st)"
  have eq: "deleteProduct i st =
      ((\<exists>p \<in> set (products st). p_id p = i),
       st\<lparr>products := filter (\<lambda>p. p_id p \<noteq> i) (products st)\<rparr>)"
    by (rule deleteProduct_eq [OF d])
  have absent: "\<not> (\<exists>p \<in> set (products st). p_id p = i) \<longrightarrow> deleteProduct i st = (False, st)"
  proof
    assume "\<not> (\<exists>p \<in> set (products st). p_id p = i)"
    then have "findIndex (\<lambda>product. p_id product = i) (products st) = None"
      by (simp add: findIndex_None_iff)
    then show "deleteProduct i st = (False, st)"
      by (simp add: deleteProduct_def)
  qed
  have ps': "products ?st' = filter (\<lambda>p. p_id p \<noteq> i) (products st)"
    by (simp add: eq)
  have gone: "getProductById ?st' i = None"
    by (simp add: getProductById_def ps' find_None_iff2)
  have "findIndex (\<lambda>product. p_id product = i) (products ?st') = None"
    by (simp add: ps' findIndex_None_iff)
  then have again: "deleteProduct i ?st' = (False, ?st')"
    by (simp add: deleteProduct_def)
  have "filter (\<lambda>row. r_id row \<noteq> i) (filter (\<lambda>row. r_id row \<noteq> i) (products_table db))
          = filter (\<lambda>row. r_id row \<noteq> i) (products_table db)"
    by simp
  then have db_again: "db_deleteProduct i (snd (db_deleteProduct i db)) = (False, snd (db_deleteProduct i db))"
    by (simp add: db_deleteProduct_def)
  from eq absent gone again db_deleteProduct_eq [of i db] db_again show ?thesis
    by blast
qed

lemma ids_inv_store2: "ids_inv store2"
  by (simp add: ids_inv_def store2_def arroz_def azucar_def)

theorem deleteProduct_true_iff_existed_witness:
  "ids_inv store2
   \<and> deleteProduct 1 store2 = (True, store2\<lparr>products := [azucar]\<rparr>)
   \<and> deleteProduct 1 (snd (deleteProduct 1 store2)) = (False, snd (deleteProduct 1 store2))
   \<and> getProductById (snd (deleteProduct 1 store2)) 1 = None
   \<and> deleteProduct 7 store2 = (False, store2)
   \<and> fst (db_deleteProduct 1 db2) \<and> \<not> fst (db_deleteProduct 1 (snd (db_deleteProduct 1 db2)))"
proof -
  have ps: "products store2 = [arroz, azucar]" "p_id arroz = 1" "p_id azucar = 2"
    by (simp_all add: store2_def arroz_def azucar_def)
  have rows: "\<exists>row \<in> set (products_table db2). r_id row = 1"
    by (simp add: db2_def)
  note one = deleteProduct_true_iff_existed [OF ids_inv_store2, of 1 db2]
  note seven = deleteProduct_true_iff_existed [OF ids_inv_store2, of 7 db2]
  from one have a: "deleteProduct 1 store2 = (True, store2\<lparr>products := [azucar]\<rparr>)"
    by (simp add: ps)
  from one have b: "deleteProduct 1 (snd (deleteProduct 1 store2)) = (False, snd (deleteProduct 1 store2))"
    and c: "getProductById (snd (deleteProduct 1 store2)) 1 = None"
    and e: "db_deleteProduct 1 (snd (db_deleteProduct 1 db2)) = (False, snd (db_deleteProduct 1 db2))"
    by blast+
  from seven have d: "deleteProduct 7 store2 = (False, store2)"
    by (simp add: ps)
  from one rows have f: "fst (db_deleteProduct 1 db2)"
    by simp
  from e have g: "\<not> fst (db_deleteProduct 1 (snd (db_deleteProduct 1 db2)))"
    by simp
  from ids_inv_store2 a b c d f g show ?thesis
    by blast
qed

section \<open>Pricing: create and update\<close>

lemma find_list_update:
  "findIndex P xs = Some k \<Longrightarrow> P y \<Longrightarrow> find P (xs[k := y]) = Some y"
proof (induction xs arbitrary: k)
  case Nil
  then show ?case by simp
next
  case (Cons x xs)
  then show ?case
    by (cases "P x") auto
qed

lemma getProductById_findIndex:
  "getProductById st i = Some old \<Longrightarrow>
   \<exists>k. findIndex (\<lambda>product. p_id product = i) (products st) = Some k \<and> products st ! k = old"
  by (auto simp: getProductById_def find_findIndex split: option.splits)

text \<open>The margin an update computes with: the patch's when it is a non-empty string,
  the stored one otherwise.\<close>

lemma updateProduct_existing:
  assumes "getProductById st i = Some old"
  shows "\<exists>p. fst (updateProduct rt now i patch st) = Some p
           \<and> getProductById (snd (updateProduct rt now i patch st)) i = Some p
           \<and> p \<in> set (products (snd (updateProduct rt now i patch st)))
           \<and> p = old\<lparr>p_name := i_name patch,
                     p_barcode := or_str (i_barcode patch) (p_barcode old),
                     p_purchasePrice := i_purchasePrice patch,
                     p_salePrice := derive_sale_price rt (parseFloat rt (i_purchasePrice patch))
                        (parseFloat rt (if truthy_str (i_profitMargin patch)
                                        then the (i_profitMargin patch) else p_profitMargin old)),
                     p_profitMargin := toString rt
                        (parseFloat rt (if truthy_str (i_profitMargin patch)
                                        then the (i_profitMargin patch) else p_profitMargin old)),
                     p_buyerName := or_str (i_buyerName patch) (p_buyerName old),
                     p_stock := (case i_stock patch of Some s \<Rightarrow> Some s | None \<Rightarrow> p_stock old),
                     p_minStock := (case i_minStock patch of Some s \<Rightarrow> Some s | None \<Rightarrow> p_minStock old),
                     p_updatedAt := now\<rparr>"
proof -
  from getProductById_findIndex [OF assms] obtain k
    where k: "findIndex (\<lambda>product. p_id product = i) (products st) = Some k"
      and old: "products st ! k = old"
    by blast
  from findIndex_Some [OF k] old have klen: "k < length (products st)" and idold: "p_id old = i"
    by simp_all
  let ?m = "parseFloat rt (if truthy_str (i_profitMargin patch)
                           then the (i_profitMargin patch) else p_profitMargin old)"
  let ?p = "old\<lparr>p_name := i_name patch,
                 p_barcode := or_str (i_barcode patch) (p_barcode old),
                 p_purchasePrice := i_purchasePrice patch,
                 p_salePrice := derive_sale_price rt (parseFloat rt (i_purchasePrice patch)) ?m,
                 p_profitMargin := toString rt ?m,
                 p_buyerName := or_str (i_buyerName patch) (p_buyerName old),
                 p_stock := (case i_stock patch of Some s \<Rightarrow> Some s | None \<Rightarrow> p_stock old),
                 p_minStock := (case i_minStock patch of Some s \<Rightarrow> Some s | None \<Rightarrow> p_minStock old),
                 p_updatedAt := now\<rparr>"
  have margin: "(case i_profitMargin patch of
                   Some m \<Rightarrow> if m \<noteq> [] then parseFloat rt m else parseFloat rt (p_profitMargin old)
                 | None \<Rightarrow> parseFloat rt (p_profitMargin old)) = ?m"
    by (cases "i_profitMargin patch") simp_all
  have upd: "updateProduct rt now i patch st = (Some ?p, st\<lparr>products := (products st)[k := ?p]\<rparr>)"
    unfolding updateProduct_def k option.case Let_def old margin derive_sale_price_def
    by (rule refl)
  have "p_id ?p = i"
    using idold by simp
  then have get: "find (\<lambda>product. p_id product = i) ((products st)[k := ?p]) = Some ?p"
    by (intro find_list_update [OF k])
  have mem: "?p \<in> set ((products st)[k := ?p])"
    using klen by (simp add: set_update_memI)
  show ?thesis
    using get mem by (simp add: upd getProductById_def)
qed

lemma createProduct_fields:
  "fst (createProduct rt now inp st) =
     \<lparr>p_id = nextProductId st,
      p_name = i_name inp,
      p_barcode = or_str (i_barcode inp) None,
      p_purchasePrice = i_purchasePrice inp,
      p_salePrice = derive_sale_price rt (parseFloat rt (i_purchasePrice inp))
         (if truthy_str (i_profitMargin inp) then parseFloat rt (the (i_profitMargin inp))
          else lit rt ''20''),
      p_profitMargin = toString rt
         (if truthy_str (i_profitMargin inp) then parseFloat rt (the (i_profitMargin inp))
          else lit rt ''20''),
      p_buyerName = or_str (i_buyerName inp) None,
      p_stock = or_num (i_stock inp) None,
      p_minStock = or_num (i_minStock inp) None,
      p_createdAt = now,
      p_updatedAt = now\<rparr>"
proof -
  have "(case i_profitMargin inp of
           Some m \<Rightarrow> if m \<noteq> [] then parseFloat rt m else lit rt ''20''
         | None \<Rightarrow> lit rt ''20'')
        = (if truthy_str (i_profitMargin inp) then parseFloat rt (the (i_profitMargin inp))
           else lit rt ''20'')"
    by (cases "i_profitMargin inp") simp_all
  then show ?thesis
    by (simp add: createProduct_def Let_def derive_sale_price_def)
qed

section \<open>Evaluating the reference runtime\<close>

declare show_int.simps [simp del] frac_digits.simps [simp del]

lemmas dec_eval = parseFloat_dec_def toFixed2_dec_def toString_dec_def is_digit_def digit_value_def
  digits_value_def toUpperCase_ascii_def parseInt_dec_def show_int.simps frac_digits.simps Let_def

lemma decimal_runtime_sel:
  "parseFloat decimal_runtime = parseFloat_dec"
  "toFixed2 decimal_runtime = toFixed2_dec"
  "toString decimal_runtime = toString_dec"
  "lit decimal_runtime = parseFloat_dec"
  "isNaN decimal_runtime = (\<lambda>x. x = NaN)"
  "parseInt decimal_runtime = parseInt_dec"
  "toUpperCase decimal_runtime = toUpperCase_ascii"
  "localeCompare decimal_runtime = compare_codes"
  "setDate_plus decimal_runtime = (\<lambda>k d. d + k * 86400000)"
  by (simp_all add: decimal_runtime_def)

lemma derive_examples:
  "derive_sale_price decimal_runtime (parseFloat_dec ''49.99'') (parseFloat_dec ''20'') = ''59.99''"
  "derive_sale_price decimal_runtime (parseFloat_dec ''100.00'') (parseFloat_dec ''20'') = ''120.00''"
  "derive_sale_price decimal_runtime (parseFloat_dec ''49.99'') (parseFloat_dec ''30'') = ''64.99''"
  "derive_sale_price decimal_runtime (parseFloat_dec ''10.00'') (parseFloat_dec ''30'') = ''13.00''"
  "derive_sale_price decimal_runtime (parseFloat_dec ''10.00'') (parseFloat_dec ''20'') = ''12.00''"
  by (simp_all add: derive_sale_price_def decimal_runtime_sel dec_eval)

lemma toString_examples:
  "toString_dec (parseFloat_dec ''20'') = ''20''"
  "toString_dec (parseFloat_dec ''30'') = ''30''"
  "toString_dec (parseFloat_dec ''12.5'') = ''12.5''"
  by (simp_all add: dec_eval)


lemma store1_eq:
  "store1 = \<lparr>products = [arroz], businessNews = [], nextProductId = 2, nextNewsId = 1\<rparr>"
  by (simp add: store1_def createProduct_snd createProduct_fields arroz_input_def arroz_def
      new_MemStorage_def or_str_def or_num_def decimal_runtime_sel derive_examples toString_examples)

section \<open>Updating a product\<close>


text \<open>
  Claim C5. When the patch of an update has no \<open>profitMargin\<close>, the sale price is
  derived from the new purchase price and the margin stored with that product (the number
  its stored \<open>profitMargin\<close> parses to), not from the default of 20; the updated product
  is what \<open>getProductById\<close> returns afterwards.
\<close>

theorem updateProduct_inherits_stored_margin:
  assumes "getProductById st i = Some old" and "i_profitMargin patch = None"
  shows "\<exists>p. fst (updateProduct rt now i patch st) = Some p
           \<and> getProductById (snd (updateProduct rt now i patch st)) i = Some p
           \<and> p_salePrice p = derive_sale_price rt (parseFloat rt (i_purchasePrice patch))
                                 (parseFloat rt (p_profitMargin old))
           \<and> p_profitMargin p = toString rt (parseFloat rt (p_profitMargin old))"
  using updateProduct_existing [OF assms(1), of rt now patch] assms(2)
  by auto

theorem updateProduct_inherits_stored_margin_witness:
  "getProductById store1 1 = Some arroz \<and> i_profitMargin patch_no_margin = None
   \<and> p_profitMargin arroz = ''30''
   \<and> (\<exists>p. fst (updateProduct decimal_runtime 5000 1 patch_no_margin store1) = Some p
         \<and> getProductById (snd (updateProduct decimal_runtime 5000 1 patch_no_margin store1)) 1 = Some p
         \<and> p_salePrice p = ''13.00'' \<and> p_profitMargin p = ''30'')
   \<and> derive_sale_price decimal_runtime (parseFloat decimal_runtime ''10.00'')
        (lit decimal_runtime ''20'') = ''12.00''"
proof -
  have get: "getProductById store1 1 = Some arroz"
    by (simp add: store1_eq getProductById_def arroz_def)
  have none: "i_profitMargin patch_no_margin = None"
    and pp: "i_purchasePrice patch_no_margin = ''10.00''"
    by (simp_all add: patch_no_margin_def)
  have pm: "p_profitMargin arroz = ''30''"
    by (simp add: arroz_def)
  from updateProduct_inherits_stored_margin [OF get none, of decimal_runtime 5000]
  have upd: "\<exists>p. fst (updateProduct decimal_runtime 5000 1 patch_no_margin store1) = Some p
         \<and> getProductById (snd (updateProduct decimal_runtime 5000 1 patch_no_margin store1)) 1 = Some p
         \<and> p_salePrice p = ''13.00'' \<and> p_profitMargin p = ''30''"
    by (simp add: pp pm decimal_runtime_sel derive_examples toString_examples)
  have twenty: "derive_sale_price decimal_runtime (parseFloat decimal_runtime ''10.00'')
        (lit decimal_runtime ''20'') = ''12.00''"
    by (simp add: decimal_runtime_sel derive_examples)
  from get none pm upd twenty show ?thesis
    by blast
qed

section \<open>Sorting with a comparator\<close>

lemma mset_sort_insert: "mset (sort_insert cmp x ys) = add_mset x (mset ys)"
  by (induction ys) auto

lemma mset_js_sort: "mset (js_sort cmp xs) = mset xs"
  by (induction xs) (simp_all add: js_sort_def mset_sort_insert)

lemma set_js_sort: "set (js_sort cmp xs) = set xs"
  by (metis mset_js_sort set_mset_mset)

lemma length_js_sort: "length (js_sort cmp xs) = length xs"
  by (metis mset_js_sort size_mset)

text \<open>A comparator that subtracts keys sorts as the library's stable \<open>sort_key\<close> does.\<close>

lemma sort_insert_key:
  "sort_insert (\<lambda>a b. f a - f b) x ys = insort_key f x ys" for f :: "'a \<Rightarrow> int"
  by (induction ys) simp_all

lemma js_sort_key: "js_sort (\<lambda>a b. f a - f b) xs = sort_key f xs" for f :: "'a \<Rightarrow> int"
  by (induction xs) (simp_all add: js_sort_def sort_insert_key)

lemma sorted_sort_insert:
  assumes "consistent cmp" and "sorted_wrt (\<lambda>a b. cmp a b \<le> 0) ys"
  shows "sorted_wrt (\<lambda>a b. cmp a b \<le> 0) (sort_insert cmp x ys)"
  using assms(2)
proof (induction ys)
  case Nil
  then show ?case by simp
next
  case (Cons y ys)
  show ?case
  proof (cases "cmp x y \<le> 0")
    case True
    have "\<forall>z \<in> set ys. cmp x z \<le> 0"
    proof
      fix z assume "z \<in> set ys"
      with Cons.prems have "cmp y z \<le> 0" by simp
      with True assms(1) show "cmp x z \<le> 0"
        unfolding consistent_def by blast
    qed
    with True Cons.prems show ?thesis by simp
  next
    case False
    with assms(1) have yx: "cmp y x \<le> 0"
      unfolding consistent_def by blast
    from Cons have "sorted_wrt (\<lambda>a b. cmp a b \<le> 0) (sort_insert cmp x ys)" by simp
    moreover have "\<forall>z \<in> set (sort_insert cmp x ys). cmp y z \<le> 0"
    proof
      fix z assume "z \<in> set (sort_insert cmp x ys)"
      then have "z \<in># mset (sort_insert cmp x ys)" by simp
      then have "z = x \<or> z \<in> set ys"
        by (simp add: mset_sort_insert)
      with yx Cons.prems show "cmp y z \<le> 0" by auto
    qed
    ultimately show ?thesis using False by simp
  qed
qed

lemma sorted_js_sort:
  "consistent cmp \<Longrightarrow> sorted_wrt (\<lambda>a b. cmp a b \<le> 0) (js_sort cmp xs)"
  by (induction xs) (simp_all add: js_sort_def sorted_sort_insert)

section \<open>Announcements: listing, sweeping, expiry\<close>


lemma getAllBusinessNews_eq:
  "getAllBusinessNews now st = sort_key n_createdAt (filter (is_active now) (businessNews st))"
proof -
  have "(\<lambda>news. n_isPermanent news \<or>
            (case n_expiresAt news of None \<Rightarrow> False | Some e \<Rightarrow> new_Date (Some e) > now))
        = is_active now"
    by (auto simp: is_active_def fun_eq_iff split: option.splits)
  moreover have cmp: "compare_createdAt = (\<lambda>a b. n_createdAt a - n_createdAt b)"
    by (simp add: compare_createdAt_def fun_eq_iff)
  have "js_sort compare_createdAt xs = sort_key n_createdAt xs" for xs
    unfolding cmp by (rule js_sort_key)
  ultimately show ?thesis
    by (simp add: getAllBusinessNews_def)
qed

lemma db_getAllBusinessNews_eq:
  "db_getAllBusinessNews now db
     = sort_key nr_createdAt (filter (\<lambda>row. now < nr_expiresAt row) (business_news_table db))"
  by (simp add: db_getAllBusinessNews_def js_sort_key)

text \<open>
  Claim C3. \<open>getAllBusinessNews\<close> returns exactly the active announcements, each as
  often as it is stored: those that are permanent or whose \<open>expiresAt\<close> lies after
  \<open>now\<close>; so every permanent announcement is in the list. The list is in ascending
  order of creation time (it is the stable sort of the active announcements by
  \<open>createdAt\<close>). The durable store, which has no permanent announcements, returns the
  rows with \<open>now < expiresAt\<close> in the same order.
\<close>

theorem getAllBusinessNews_active_by_creation:
  "mset (getAllBusinessNews now st) = mset (filter (is_active now) (businessNews st))
   \<and> sorted (map n_createdAt (getAllBusinessNews now st))
   \<and> getAllBusinessNews now st = sort_key n_createdAt (filter (is_active now) (businessNews st))
   \<and> (\<forall>news \<in> set (businessNews st).
         n_isPermanent news \<longrightarrow> news \<in> set (getAllBusinessNews now st))
   \<and> mset (db_getAllBusinessNews now db)
       = mset (filter (\<lambda>row. now < nr_expiresAt row) (business_news_table db))
   \<and> sorted (map nr_createdAt (db_getAllBusinessNews now db))"
proof -
  have "\<forall>news \<in> set (businessNews st).
          n_isPermanent news \<longrightarrow> news \<in> set (getAllBusinessNews now st)"
    by (simp add: getAllBusinessNews_eq is_active_def)
  then show ?thesis
    by (simp add: getAllBusinessNews_eq db_getAllBusinessNews_eq)
qed

theorem getAllBusinessNews_active_by_creation_witness:
  "permanent_news \<in> set (businessNews news_store) \<and> n_isPermanent permanent_news
   \<and> getAllBusinessNews 259201500 news_store = [fresh_news, permanent_news]
   \<and> filter (is_active 259201500) (businessNews news_store) = [permanent_news, fresh_news]
   \<and> permanent_news \<in> set (getAllBusinessNews 259201500 news_store)
   \<and> sorted (map n_createdAt (getAllBusinessNews 259201500 news_store))
   \<and> map nr_id (db_getAllBusinessNews 259201500 news_db) = [2]"
proof -
  note inst = getAllBusinessNews_active_by_creation [of 259201500 news_store news_db]
  have mem: "permanent_news \<in> set (businessNews news_store)" and perm: "n_isPermanent permanent_news"
    by (simp_all add: news_store_def permanent_news_def)
  have active: "filter (is_active 259201500) (businessNews news_store) = [permanent_news, fresh_news]"
    by (simp add: news_store_def is_active_def expired_news_def permanent_news_def fresh_news_def)
  from inst have "getAllBusinessNews 259201500 news_store
      = sort_key n_createdAt (filter (is_active 259201500) (businessNews news_store))"
    by blast
  then have a: "getAllBusinessNews 259201500 news_store = [fresh_news, permanent_news]"
    by (simp add: active permanent_news_def fresh_news_def)
  from inst mem perm have b: "permanent_news \<in> set (getAllBusinessNews 259201500 news_store)"
    by blast
  from inst have c: "sorted (map n_createdAt (getAllBusinessNews 259201500 news_store))"
    by blast
  have d: "map nr_id (db_getAllBusinessNews 259201500 news_db) = [2]"
    by (simp add: db_getAllBusinessNews_eq news_db_def)
  from mem perm a active b c d show ?thesis
    by blast
qed

subsection \<open>The sweep\<close>

lemma deleteExpiredNews_eq:
  "deleteExpiredNews now st =
     (int (length (filter (\<lambda>news. new_Date (n_expiresAt news) \<le> now) (businessNews st))),
      st\<lparr>businessNews := filter (\<lambda>news. now < new_Date (n_expiresAt news)) (businessNews st)\<rparr>)"
proof -
  have "int (length (businessNews st))
          - int (length (filter (\<lambda>news. now < new_Date (n_expiresAt news)) (businessNews st)))
        = int (length (filter (\<lambda>news. \<not> now < new_Date (n_expiresAt news)) (businessNews st)))"
    using sum_length_filter_compl [of "\<lambda>news. now < new_Date (n_expiresAt news)" "businessNews st"]
    by simp
  then show ?thesis
    by (simp add: deleteExpiredNews_def Let_def not_less)
qed

text \<open>What the sweep does get right: an announcement that has an expiry is removed
  exactly when that expiry is not after \<open>now\<close>, the result counts the removed
  announcements, and a second sweep at the same time removes nothing.\<close>

lemma deleteExpiredNews_with_expiry:
  assumes "news \<in> set (businessNews st)" and "n_expiresAt news = Some e"
  shows "news \<in> set (businessNews (snd (deleteExpiredNews now st))) \<longleftrightarrow> now < e"
  using assms by (simp add: deleteExpiredNews_eq)

lemma deleteExpiredNews_count:
  "fst (deleteExpiredNews now st)
     = int (length (businessNews st)) - int (length (businessNews (snd (deleteExpiredNews now st))))"
  by (simp add: deleteExpiredNews_def Let_def)

lemma deleteExpiredNews_twice:
  "deleteExpiredNews now (snd (deleteExpiredNews now st)) = (0, snd (deleteExpiredNews now st))"
  by (simp add: deleteExpiredNews_def Let_def)

text \<open>
  Claim C2 fails on the in-memory store: \<open>deleteExpiredNews\<close> keeps the announcements
  with \<^verbatim>\<open>new Date(news.expiresAt) > now\<close> and does not look at \<open>isPermanent\<close>. A permanent
  announcement has no expiry, \<^verbatim>\<open>new Date(null)\<close> is the epoch, and so it is removed by
  every sweep after 1970, although \<open>getAllBusinessNews\<close> lists it as active.
\<close>

lemma deleteExpiredNews_without_expiry:
  assumes "n_expiresAt news = None" and "0 \<le> now"
  shows "news \<notin> set (businessNews (snd (deleteExpiredNews now st)))"
  using assms by (simp add: deleteExpiredNews_eq)

theorem deleteExpiredNews_removes_permanent:
  "n_isPermanent permanent_news \<and> \<not> is_expired 259201500 permanent_news
   \<and> permanent_news \<in> set (businessNews news_store)
   \<and> permanent_news \<in> set (getAllBusinessNews 259201500 news_store)
   \<and> deleteExpiredNews 259201500 news_store = (2, news_store\<lparr>businessNews := [fresh_news]\<rparr>)
   \<and> permanent_news \<notin> set (businessNews (snd (deleteExpiredNews 259201500 news_store)))"
proof -
  have a: "n_isPermanent permanent_news" "\<not> is_expired 259201500 permanent_news"
    "permanent_news \<in> set (businessNews news_store)"
    by (simp_all add: permanent_news_def is_expired_def news_store_def)
  have b: "permanent_news \<in> set (getAllBusinessNews 259201500 news_store)"
    by (simp add: getAllBusinessNews_eq news_store_def is_active_def permanent_news_def)
  have c: "deleteExpiredNews 259201500 news_store = (2, news_store\<lparr>businessNews := [fresh_news]\<rparr>)"
    by (simp add: deleteExpiredNews_eq news_store_def expired_news_def permanent_news_def
        fresh_news_def)
  have "fresh_news \<noteq> permanent_news"
    by (simp add: fresh_news_def permanent_news_def)
  with c have d: "permanent_news \<notin> set (businessNews (snd (deleteExpiredNews 259201500 news_store)))"
    by auto
  from a b c d show ?thesis by blast
qed

text \<open>The durable store deletes the rows with \<open>expiresAt < now\<close>: a row that expires
  at \<open>now\<close> itself is not listed as active and is not swept either.\<close>

lemma db_deleteExpiredNews_eq:
  "db_deleteExpiredNews now db =
     (int (length (filter (\<lambda>row. nr_expiresAt row < now) (business_news_table db))),
      db\<lparr>business_news_table := filter (\<lambda>row. now \<le> nr_expiresAt row) (business_news_table db)\<rparr>)"
  by (simp add: db_deleteExpiredNews_def not_less)

lemma db_sweep_keeps_row_expiring_now:
  "db_deleteExpiredNews 259201000 news_db = (0, news_db)
   \<and> map nr_id (db_getAllBusinessNews 259201000 news_db) = [2]"
  by (simp add: db_deleteExpiredNews_eq db_getAllBusinessNews_eq news_db_def)

subsection \<open>The expiry of a new announcement\<close>


text \<open>
  Claim C4, as stated, fails: the expiry is not computed from \<open>createdAt\<close>.
  \<open>createBusinessNews\<close> reads the clock once for \<open>createdAt\<close> and once more for the
  expiry, and when the clock has moved on in between, \<open>expiresAt\<close> is later than
  \<open>createdAt\<close> plus three days.
\<close>

theorem expiry_from_createdAt_counterexample:
  "\<not> n_isPermanent (fst (createBusinessNews decimal_runtime 1000 1001 oferta new_MemStorage))
   \<and> n_createdAt (fst (createBusinessNews decimal_runtime 1000 1001 oferta new_MemStorage)) = 1000
   \<and> n_expiresAt (fst (createBusinessNews decimal_runtime 1000 1001 oferta new_MemStorage))
       = Some 259201001
   \<and> compute_expiry decimal_runtime 1000 False = Some 259201000
   \<and> n_expiresAt (fst (createBusinessNews decimal_runtime 1000 1001 oferta new_MemStorage))
       \<noteq> compute_expiry decimal_runtime
           (n_createdAt (fst (createBusinessNews decimal_runtime 1000 1001 oferta new_MemStorage)))
           (n_isPermanent (fst (createBusinessNews decimal_runtime 1000 1001 oferta new_MemStorage)))"
  by (simp add: createBusinessNews_def Let_def oferta_def compute_expiry_def decimal_runtime_sel)

text \<open>
  Claim C4, amended. The \<open>expiresAt\<close> of a new announcement is \<^verbatim>\<open>null\<close> when the
  announcement is permanent; otherwise it is three calendar days after the clock reading
  taken for the expiry, which is a reading of its own: the in-memory store reads the
  clock once for \<open>createdAt\<close> and once more for the expiry, and in the durable store,
  where no announcement is permanent, the expiry comes from the server's clock and
  \<open>createdAt\<close> from the database's. Whenever the two readings are the same instant,
  \<open>expiresAt\<close> is \<open>createdAt\<close> plus three calendar days. It is fixed at creation:
  creating an announcement only appends it, deleting and sweeping only remove
  announcements, and the product operations leave the announcements alone, so no stored
  \<open>expiresAt\<close> is ever computed again.
\<close>

theorem createBusinessNews_expiry:
  "n_createdAt (fst (createBusinessNews rt now now2 insertNews st)) = now
   \<and> n_isPermanent (fst (createBusinessNews rt now now2 insertNews st))
       = (i_isPermanent insertNews = Some True)
   \<and> n_expiresAt (fst (createBusinessNews rt now now2 insertNews st))
       = compute_expiry rt now2 (n_isPermanent (fst (createBusinessNews rt now now2 insertNews st)))
   \<and> (n_isPermanent (fst (createBusinessNews rt now now2 insertNews st))
        \<longrightarrow> n_expiresAt (fst (createBusinessNews rt now now2 insertNews st)) = None)
   \<and> (now2 = now \<longrightarrow>
        n_expiresAt (fst (createBusinessNews rt now now2 insertNews st))
          = compute_expiry rt (n_createdAt (fst (createBusinessNews rt now now2 insertNews st)))
              (n_isPermanent (fst (createBusinessNews rt now now2 insertNews st))))
   \<and> businessNews (snd (createBusinessNews rt now now2 insertNews st))
       = businessNews st @ [fst (createBusinessNews rt now now2 insertNews st)]
   \<and> set (businessNews (snd (deleteBusinessNews i st))) \<subseteq> set (businessNews st)
   \<and> set (businessNews (snd (deleteExpiredNews t st))) \<subseteq> set (businessNews st)
   \<and> businessNews (snd (createProduct rt t inp st)) = businessNews st
   \<and> businessNews (snd (updateProduct rt t i inp st)) = businessNews st
   \<and> businessNews (snd (deleteProduct i st)) = businessNews st
   \<and> nr_createdAt (fst (db_createBusinessNews rt dbnow now simpleNews db)) = dbnow
   \<and> Some (nr_expiresAt (fst (db_createBusinessNews rt dbnow now simpleNews db)))
       = compute_expiry rt now False
   \<and> (dbnow = now \<longrightarrow>
        Some (nr_expiresAt (fst (db_createBusinessNews rt dbnow now simpleNews db)))
          = compute_expiry rt (nr_createdAt (fst (db_createBusinessNews rt dbnow now simpleNews db)))
              False)
   \<and> business_news_table (snd (db_createBusinessNews rt dbnow now simpleNews db))
       = business_news_table db @ [fst (db_createBusinessNews rt dbnow now simpleNews db)]
   \<and> set (business_news_table (snd (db_deleteBusinessNews i db))) \<subseteq> set (business_news_table db)
   \<and> set (business_news_table (snd (db_deleteExpiredNews t db))) \<subseteq> set (business_news_table db)
   \<and> business_news_table (snd (db_createProduct rt dbnow t simpleInp db)) = business_news_table db
   \<and> business_news_table (snd (db_updateProduct rt t i simpleInp db)) = business_news_table db
   \<and> business_news_table (snd (db_deleteProduct i db)) = business_news_table db"
proof -
  have create: "n_createdAt (fst (createBusinessNews rt now now2 insertNews st)) = now"
    "n_isPermanent (fst (createBusinessNews rt now now2 insertNews st))
       = (i_isPermanent insertNews = Some True)"
    "n_expiresAt (fst (createBusinessNews rt now now2 insertNews st))
       = compute_expiry rt now2 (n_isPermanent (fst (createBusinessNews rt now now2 insertNews st)))"
    "businessNews (snd (createBusinessNews rt now now2 insertNews st))
       = businessNews st @ [fst (createBusinessNews rt now now2 insertNews st)]"
    by (simp_all add: createBusinessNews_def Let_def compute_expiry_def)
  have perm: "n_isPermanent (fst (createBusinessNews rt now now2 insertNews st))
        \<longrightarrow> n_expiresAt (fst (createBusinessNews rt now now2 insertNews st)) = None"
    by (simp add: create(3) compute_expiry_def)
  have same: "now2 = now \<longrightarrow>
        n_expiresAt (fst (createBusinessNews rt now now2 insertNews st))
          = compute_expiry rt (n_createdAt (fst (createBusinessNews rt now now2 insertNews st)))
              (n_isPermanent (fst (createBusinessNews rt now now2 insertNews st)))"
    using create(1,3) by auto
  have del: "set (businessNews (snd (deleteBusinessNews i st))) \<subseteq> set (businessNews st)"
    using set_splice1 [of _ "businessNews st"]
    by (auto simp: deleteBusinessNews_def split: option.splits)
  have sweep: "set (businessNews (snd (deleteExpiredNews t st))) \<subseteq> set (businessNews st)"
    by (auto simp: deleteExpiredNews_eq)
  have prod: "businessNews (snd (createProduct rt t inp st)) = businessNews st"
    "businessNews (snd (deleteProduct i st)) = businessNews st"
    by (simp_all add: createProduct_snd deleteProduct_def split: option.splits)
  have upd: "businessNews (snd (updateProduct rt t i inp st)) = businessNews st"
  proof (cases "findIndex (\<lambda>product. p_id product = i) (products st)")
    case None
    then show ?thesis by (simp add: updateProduct_None)
  next
    case (Some k)
    from updateProduct_Some [OF Some, of rt t inp] show ?thesis by auto
  qed
  have db: "nr_createdAt (fst (db_createBusinessNews rt dbnow now simpleNews db)) = dbnow"
    "Some (nr_expiresAt (fst (db_createBusinessNews rt dbnow now simpleNews db)))
       = compute_expiry rt now False"
    "business_news_table (snd (db_createBusinessNews rt dbnow now simpleNews db))
       = business_news_table db @ [fst (db_createBusinessNews rt dbnow now simpleNews db)]"
    by (simp_all add: db_createBusinessNews_def Let_def compute_expiry_def)
  have dbsame: "dbnow = now \<longrightarrow>
        Some (nr_expiresAt (fst (db_createBusinessNews rt dbnow now simpleNews db)))
          = compute_expiry rt (nr_createdAt (fst (db_createBusinessNews rt dbnow now simpleNews db)))
              False"
    using db(1,2) by auto
  have dbdel: "set (business_news_table (snd (db_deleteBusinessNews i db))) \<subseteq> set (business_news_table db)"
    "set (business_news_table (snd (db_deleteExpiredNews t db))) \<subseteq> set (business_news_table db)"
    by (auto simp: db_deleteBusinessNews_def db_deleteExpiredNews_def Let_def)
  have dbprod: "business_news_table (snd (db_createProduct rt dbnow t simpleInp db)) = business_news_table db"
    "business_news_table (snd (db_updateProduct rt t i simpleInp db)) = business_news_table db"
    "business_news_table (snd (db_deleteProduct i db)) = business_news_table db"
    by (simp_all add: db_createProduct_def db_updateProduct_def db_deleteProduct_def Let_def
        split: sum.splits option.splits)
  from create perm same del sweep prod upd db dbsame dbdel dbprod show ?thesis
    by blast
qed

theorem createBusinessNews_expiry_witness:
  "n_expiresAt (fst (createBusinessNews decimal_runtime 1000 1000 oferta new_MemStorage))
     = Some 259201000
   \<and> n_createdAt (fst (createBusinessNews decimal_runtime 1000 1000 oferta new_MemStorage)) = 1000
   \<and> n_expiresAt (fst (createBusinessNews decimal_runtime 1000 1000
         (oferta\<lparr>i_isPermanent := Some True\<rparr>) new_MemStorage)) = None
   \<and> nr_createdAt (fst (db_createBusinessNews decimal_runtime 1000 1000
         \<lparr>s_title = ''OFERTA'', s_content = ''ARROZ''\<rparr> news_db)) = 1000
   \<and> nr_expiresAt (fst (db_createBusinessNews decimal_runtime 1000 1000
         \<lparr>s_title = ''OFERTA'', s_content = ''ARROZ''\<rparr> news_db)) = 259201000"
proof -
  note plain = createBusinessNews_expiry
    [of decimal_runtime 1000 1000 oferta new_MemStorage 1 1000 arroz_input 1000
        "\<lparr>s_title = ''OFERTA'', s_content = ''ARROZ''\<rparr>" news_db
        "\<lparr>s_name = ''ARROZ'', s_purchasePrice = ''49.99''\<rparr>"]
  note perm = createBusinessNews_expiry
    [of decimal_runtime 1000 1000 "oferta\<lparr>i_isPermanent := Some True\<rparr>" new_MemStorage
        1 1000 arroz_input 1000 "\<lparr>s_title = ''OFERTA'', s_content = ''ARROZ''\<rparr>" news_db
        "\<lparr>s_name = ''ARROZ'', s_purchasePrice = ''49.99''\<rparr>"]
  from plain have a: "n_expiresAt (fst (createBusinessNews decimal_runtime 1000 1000 oferta new_MemStorage))
     = Some 259201000"
    by (simp add: oferta_def compute_expiry_def decimal_runtime_sel)
  from plain have b: "n_createdAt (fst (createBusinessNews decimal_runtime 1000 1000 oferta new_MemStorage)) = 1000"
    by blast
  have "i_isPermanent (oferta\<lparr>i_isPermanent := Some True\<rparr>) = Some True"
    by simp
  with perm have c: "n_expiresAt (fst (createBusinessNews decimal_runtime 1000 1000
         (oferta\<lparr>i_isPermanent := Some True\<rparr>) new_MemStorage)) = None"
    by blast
  from plain have d: "nr_createdAt (fst (db_createBusinessNews decimal_runtime 1000 1000
         \<lparr>s_title = ''OFERTA'', s_content = ''ARROZ''\<rparr> news_db)) = 1000"
    by blast
  from plain have "Some (nr_expiresAt (fst (db_createBusinessNews decimal_runtime 1000 1000
         \<lparr>s_title = ''OFERTA'', s_content = ''ARROZ''\<rparr> news_db)))
       = compute_expiry decimal_runtime
           (nr_createdAt (fst (db_createBusinessNews decimal_runtime 1000 1000
              \<lparr>s_title = ''OFERTA'', s_content = ''ARROZ''\<rparr> news_db))) False"
    by blast
  with d have e: "nr_expiresAt (fst (db_createBusinessNews decimal_runtime 1000 1000
         \<lparr>s_title = ''OFERTA'', s_content = ''ARROZ''\<rparr> news_db)) = 259201000"
    by (simp add: compute_expiry_def decimal_runtime_sel)
  from a b c d e show ?thesis by blast
qed

section \<open>The product routes: duplicate names\<close>


lemma getProductByName_unique:
  assumes "names_unique st" and "q \<in> set (products st)"
  shows "getProductByName st (p_name q) = Some q"
  using assms unfolding names_unique_def getProductByName_def
  by (rule find_distinct_key)

lemma getProductByName_None:
  "getProductByName st nm = None \<longleftrightarrow> (\<forall>p \<in> set (products st). p_name p \<noteq> nm)"
  by (simp add: getProductByName_def find_None_iff2)

lemma getProductById_mem: "getProductById st i = Some e \<Longrightarrow> e \<in> set (products st) \<and> p_id e = i"
  unfolding getProductById_def by (rule find_Some_mem)

lemma post_products_duplicate:
  assumes "insertProductSchema_parse rt b = Some v"
    and "\<exists>p \<in> set (products st). p_name p = i_name v"
  shows "post_products rt now True b st = (Status400 name_taken, st)"
proof -
  from assms(2) have "getProductByName st (i_name v) \<noteq> None"
    by (simp add: getProductByName_None)
  then obtain d where "getProductByName st (i_name v) = Some d" by blast
  with assms(1) show ?thesis
    by (simp add: post_products_def name_taken_def)
qed

lemma post_products_fresh:
  assumes "insertProductSchema_parse rt b = Some v"
    and "\<forall>p \<in> set (products st). p_name p \<noteq> i_name v"
  shows "post_products rt now True b st
           = (Status201 (fst (createProduct rt now v st)), snd (createProduct rt now v st))"
proof -
  from assms(2) have "getProductByName st (i_name v) = None"
    by (simp add: getProductByName_None)
  with assms(1) show ?thesis
    by (simp add: post_products_def split: prod.splits)
qed

lemma put_products_duplicate:
  assumes "names_unique st" and "updateProductSchema_parse rt b = Some v"
    and "parseInt rt idParam = Some i" and "getProductById st i = Some e"
    and "q \<in> set (products st)" and "p_name q = i_name v" and "p_id q \<noteq> i"
  shows "put_products rt now True idParam b st = (Status400 name_taken, st)"
proof -
  from getProductByName_unique [OF assms(1,5)] assms(6)
  have "getProductByName st (i_name v) = Some q" by simp
  with assms(2,3,4,7) show ?thesis
    by (simp add: put_products_def name_taken_def)
qed

lemma put_products_own_name:
  assumes "names_unique st" and "updateProductSchema_parse rt b = Some v"
    and "parseInt rt idParam = Some i" and "getProductById st i = Some e"
    and "p_name e = i_name v"
  shows "put_products rt now True idParam b st
           = (Status200 (fst (updateProduct rt now i v st)), snd (updateProduct rt now i v st))"
proof -
  from getProductById_mem [OF assms(4)] have e: "e \<in> set (products st)" "p_id e = i"
    by simp_all
  from getProductByName_unique [OF assms(1) e(1)] assms(5)
  have "getProductByName st (i_name v) = Some e" by simp
  with assms(2,3,4) e(2) show ?thesis
    by (simp add: put_products_def split: prod.splits)
qed

text \<open>
  Claim C6. With the names of the stored products distinct (the routes keep them so):
  a \<^verbatim>\<open>POST\<close> whose validated name is the name of a stored product is answered with
  status 400, "Product with this name already exists", and the store is unchanged; a
  \<^verbatim>\<open>POST\<close> with a new name creates the product, and the same \<^verbatim>\<open>POST\<close> again is then
  rejected; a \<^verbatim>\<open>PUT\<close> to an existing product with the name of a different product is
  rejected in the same way; a \<^verbatim>\<open>PUT\<close> to a product with its own current name succeeds
  with status 200 and the updated product, which keeps that name.
\<close>

theorem duplicate_name_rejected:
  assumes "names_unique st" and "insertProductSchema_parse rt b = Some v"
  shows "((\<exists>p \<in> set (products st). p_name p = i_name v) \<longrightarrow>
            post_products rt now True b st = (Status400 name_taken, st))
       \<and> ((\<forall>p \<in> set (products st). p_name p \<noteq> i_name v) \<longrightarrow>
            (\<exists>p st'. post_products rt now True b st = (Status201 p, st')
               \<and> post_products rt now' True b st' = (Status400 name_taken, st')))
       \<and> (parseInt rt idParam = Some i \<and> getProductById st i \<noteq> None
            \<and> (\<exists>q \<in> set (products st). p_name q = i_name v \<and> p_id q \<noteq> i) \<longrightarrow>
            put_products rt now True idParam b st = (Status400 name_taken, st))
       \<and> (parseInt rt idParam = Some i
            \<and> (\<exists>e. getProductById st i = Some e \<and> p_name e = i_name v) \<longrightarrow>
            (\<exists>p. put_products rt now True idParam b st
                    = (Status200 (Some p), snd (updateProduct rt now i v st))
               \<and> p_name p = i_name v
               \<and> getProductById (snd (updateProduct rt now i v st)) i = Some p))"
proof -
  have upd: "updateProductSchema_parse rt b = Some v"
    using assms(2) by (simp add: updateProductSchema_parse_def)
  have one: "(\<exists>p \<in> set (products st). p_name p = i_name v) \<longrightarrow>
            post_products rt now True b st = (Status400 name_taken, st)"
    using post_products_duplicate [OF assms(2)] by blast
  have two: "(\<forall>p \<in> set (products st). p_name p \<noteq> i_name v) \<longrightarrow>
            (\<exists>p st'. post_products rt now True b st = (Status201 p, st')
               \<and> post_products rt now' True b st' = (Status400 name_taken, st'))"
  proof
    assume fresh: "\<forall>p \<in> set (products st). p_name p \<noteq> i_name v"
    let ?p = "fst (createProduct rt now v st)" and ?st' = "snd (createProduct rt now v st)"
    have "?p \<in> set (products ?st')" "p_name ?p = i_name v"
      by (simp_all add: createProduct_snd createProduct_fields)
    then have "\<exists>p \<in> set (products ?st'). p_name p = i_name v" by blast
    from post_products_duplicate [OF assms(2) this] post_products_fresh [OF assms(2) fresh]
    show "\<exists>p st'. post_products rt now True b st = (Status201 p, st')
               \<and> post_products rt now' True b st' = (Status400 name_taken, st')"
      by blast
  qed
  have three: "parseInt rt idParam = Some i \<and> getProductById st i \<noteq> None
            \<and> (\<exists>q \<in> set (products st). p_name q = i_name v \<and> p_id q \<noteq> i) \<longrightarrow>
            put_products rt now True idParam b st = (Status400 name_taken, st)"
    using put_products_duplicate [OF assms(1) upd] by blast
  have four: "parseInt rt idParam = Some i
            \<and> (\<exists>e. getProductById st i = Some e \<and> p_name e = i_name v) \<longrightarrow>
            (\<exists>p. put_products rt now True idParam b st
                    = (Status200 (Some p), snd (updateProduct rt now i v st))
               \<and> p_name p = i_name v
               \<and> getProductById (snd (updateProduct rt now i v st)) i = Some p)"
  proof
    assume h: "parseInt rt idParam = Some i
            \<and> (\<exists>e. getProductById st i = Some e \<and> p_name e = i_name v)"
    then obtain e where e: "getProductById st i = Some e" "p_name e = i_name v" by blast
    from updateProduct_existing [OF e(1), of rt now v] obtain p
      where p: "fst (updateProduct rt now i v st) = Some p"
        "getProductById (snd (updateProduct rt now i v st)) i = Some p" "p_name p = i_name v"
      by auto
    from put_products_own_name [OF assms(1) upd _ e] h p
    show "\<exists>p. put_products rt now True idParam b st
                    = (Status200 (Some p), snd (updateProduct rt now i v st))
               \<and> p_name p = i_name v
               \<and> getProductById (snd (updateProduct rt now i v st)) i = Some p"
      by auto
  qed
  from one two three four show ?thesis by blast
qed

lemma azucar_body_parse: "insertProductSchema_parse decimal_runtime azucar_body = Some azucar_input"
  by (simp add: insertProductSchema_parse_def azucar_body_def azucar_input_def valid_name_def
      valid_purchasePrice_def decimal_runtime_sel dec_eval)

lemma names_unique_store2: "names_unique store2"
  by (simp add: names_unique_def store2_def arroz_def azucar_def)

theorem duplicate_name_rejected_witness:
  "names_unique store2 \<and> insertProductSchema_parse decimal_runtime azucar_body = Some azucar_input
   \<and> post_products decimal_runtime 5000 True azucar_body store2 = (Status400 name_taken, store2)
   \<and> put_products decimal_runtime 5000 True ''1'' azucar_body store2 = (Status400 name_taken, store2)
   \<and> (\<exists>p. put_products decimal_runtime 5000 True ''2'' azucar_body store2
             = (Status200 (Some p), snd (updateProduct decimal_runtime 5000 2 azucar_input store2))
          \<and> p_name p = ''AZUCAR'')
   \<and> (\<exists>p st'. post_products decimal_runtime 5000 True azucar_body store1 = (Status201 p, st')
          \<and> post_products decimal_runtime 6000 True azucar_body st' = (Status400 name_taken, st'))"
proof -
  have ps: "products store2 = [arroz, azucar]" "p_id arroz = 1" "p_id azucar = 2"
    "p_name arroz = ''ARROZ''" "p_name azucar = ''AZUCAR''" "i_name azucar_input = ''AZUCAR''"
    by (simp_all add: store2_def arroz_def azucar_def azucar_input_def)
  have ids: "parseInt decimal_runtime ''1'' = Some 1" "parseInt decimal_runtime ''2'' = Some 2"
    by (simp_all add: decimal_runtime_sel dec_eval)
  have get: "getProductById store2 1 = Some arroz" "getProductById store2 2 = Some azucar"
    by (simp_all add: getProductById_def ps)
  have u1: "names_unique store1"
    by (simp add: names_unique_def store1_eq)
  note put1 = duplicate_name_rejected
    [OF names_unique_store2 azucar_body_parse, of 5000 5000 "''1''" 1]
  note put2 = duplicate_name_rejected
    [OF names_unique_store2 azucar_body_parse, of 5000 5000 "''2''" 2]
  note post1 = duplicate_name_rejected [OF u1 azucar_body_parse, of 5000 6000 "''1''" 1]
  from put1 have a: "post_products decimal_runtime 5000 True azucar_body store2
      = (Status400 name_taken, store2)"
    by (simp add: ps)
  from put1 have b: "put_products decimal_runtime 5000 True ''1'' azucar_body store2
      = (Status400 name_taken, store2)"
    by (simp add: ps ids get)
  from put2 have c: "\<exists>p. put_products decimal_runtime 5000 True ''2'' azucar_body store2
             = (Status200 (Some p), snd (updateProduct decimal_runtime 5000 2 azucar_input store2))
          \<and> p_name p = ''AZUCAR''"
    by (simp add: ps ids get) blast
  from post1 have d: "\<exists>p st'. post_products decimal_runtime 5000 True azucar_body store1
             = (Status201 p, st')
          \<and> post_products decimal_runtime 6000 True azucar_body st' = (Status400 name_taken, st')"
    by (simp add: store1_eq ps)
  from names_unique_store2 azucar_body_parse a b c d show ?thesis
    by blast
qed

subsection \<open>The routes keep the names distinct\<close>

lemma distinct_map_update_fresh:
  assumes "distinct (map f xs)" and "k < length xs"
    and "\<forall>j < length xs. j \<noteq> k \<longrightarrow> f (xs ! j) \<noteq> f y"
  shows "distinct (map f (xs[k := y]))"
  unfolding distinct_conv_nth
proof (intro allI impI)
  fix a b
  assume a: "a < length (map f (xs[k := y]))" and b: "b < length (map f (xs[k := y]))"
    and ab: "a \<noteq> b"
  from assms(1) a b ab have old: "f (xs ! a) \<noteq> f (xs ! b)"
    by (simp add: distinct_conv_nth)
  from a b ab assms(3) old show "map f (xs[k := y]) ! a \<noteq> map f (xs[k := y]) ! b"
    by (cases "a = k"; cases "b = k") (auto simp: nth_list_update)
qed

lemma post_products_names_unique:
  assumes "names_unique st"
  shows "names_unique (snd (post_products rt now authenticated b st))"
proof (cases "authenticated \<and> (\<exists>v. insertProductSchema_parse rt b = Some v
                \<and> getProductByName st (i_name v) = None)")
  case False
  with assms show ?thesis
    by (auto simp: post_products_def split: option.splits)
next
  case True
  then obtain v where v: "insertProductSchema_parse rt b = Some v"
      "getProductByName st (i_name v) = None" and "authenticated"
    by blast
  then have "snd (post_products rt now authenticated b st) = snd (createProduct rt now v st)"
    by (simp add: post_products_def split: prod.splits)
  moreover from v(2) have "i_name v \<notin> p_name ` set (products st)"
    by (auto simp: getProductByName_None)
  ultimately show ?thesis
    using assms
    by (simp add: names_unique_def createProduct_snd createProduct_fields)
qed

lemma updateProduct_names_unique:
  assumes "names_unique st" and "ids_inv st"
    and "case getProductByName st (i_name v) of None \<Rightarrow> True | Some d \<Rightarrow> p_id d = i"
  shows "names_unique (snd (updateProduct rt now i v st))"
proof (cases "getProductById st i")
  case None
  then have "findIndex (\<lambda>product. p_id product = i) (products st) = None"
    by (simp add: getProductById_def find_findIndex split: option.splits)
  with assms(1) show ?thesis
    by (simp add: updateProduct_None)
next
  case (Some old)
  from getProductById_findIndex [OF Some] obtain k
    where k: "findIndex (\<lambda>product. p_id product = i) (products st) = Some k"
      and old: "products st ! k = old"
    by blast
  from findIndex_Some [OF k] have klen: "k < length (products st)" and idk: "p_id (products st ! k) = i"
    by simp_all
  from updateProduct_existing [OF Some, of rt now v] obtain p
    where p: "fst (updateProduct rt now i v st) = Some p" and pn: "p_name p = i_name v"
    by auto
  from updateProduct_Some [OF k, of rt now v] p
  have st': "products (snd (updateProduct rt now i v st)) = (products st)[k := p]"
    by auto
  from assms(2) have dids: "distinct (map p_id (products st))"
    by (simp add: ids_inv_def)
  have "\<forall>j < length (products st). j \<noteq> k \<longrightarrow> p_name (products st ! j) \<noteq> p_name p"
  proof (intro allI impI)
    fix j assume j: "j < length (products st)" and jk: "j \<noteq> k"
    show "p_name (products st ! j) \<noteq> p_name p"
    proof
      assume eq: "p_name (products st ! j) = p_name p"
      let ?q = "products st ! j"
      from j have mem: "?q \<in> set (products st)" by simp
      from getProductByName_unique [OF assms(1) mem] eq pn
      have "getProductByName st (i_name v) = Some ?q" by simp
      with assms(3) have "p_id ?q = i" by simp
      with idk have "map p_id (products st) ! j = map p_id (products st) ! k"
        using j klen by simp
      moreover have "j < length (map p_id (products st))" "k < length (map p_id (products st))"
        using j klen by simp_all
      ultimately have "j = k"
        using dids nth_eq_iff_index_eq by blast
      with jk show False by simp
    qed
  qed
  with assms(1) klen have "distinct (map p_name ((products st)[k := p]))"
    unfolding names_unique_def by (intro distinct_map_update_fresh) simp_all
  then show ?thesis
    by (simp add: names_unique_def st')
qed

lemma put_products_names_unique:
  assumes "names_unique st" and "ids_inv st"
  shows "names_unique (snd (put_products rt now authenticated idParam b st))"
proof (cases authenticated)
  case False
  with assms(1) show ?thesis by (simp add: put_products_def)
next
  case auth: True
  show ?thesis
  proof (cases "parseInt rt idParam")
    case None
    with assms(1) auth show ?thesis by (simp add: put_products_def)
  next
    case i: (Some i)
    show ?thesis
    proof (cases "updateProductSchema_parse rt b")
      case None
      with assms(1) auth i show ?thesis by (simp add: put_products_def)
    next
      case v: (Some v)
      show ?thesis
      proof (cases "getProductById st i")
        case None
        with assms(1) auth i v show ?thesis by (simp add: put_products_def)
      next
        case e: (Some e)
        show ?thesis
        proof (cases "getProductByName st (i_name v)")
          case None
          then have "snd (put_products rt now authenticated idParam b st)
                       = snd (updateProduct rt now i v st)"
            using auth i v e by (simp add: put_products_def split: prod.splits)
          with updateProduct_names_unique [OF assms, where v = v and i = i and rt = rt and now = now] None show ?thesis
            by simp
        next
          case d: (Some d)
          show ?thesis
          proof (cases "p_id d = i")
            case False
            with assms(1) auth i v e d show ?thesis by (simp add: put_products_def)
          next
            case True
            then have "snd (put_products rt now authenticated idParam b st)
                         = snd (updateProduct rt now i v st)"
              using auth i v e d by (simp add: put_products_def split: prod.splits)
            with updateProduct_names_unique [OF assms, where v = v and i = i and rt = rt and now = now] d True show ?thesis
              by simp
          qed
        qed
      qed
    qed
  qed
qed

section \<open>Searching products\<close>

lemma str_includes_sublist: "str_includes s t \<longleftrightarrow> sublist t s"
  by (induction s) (simp_all add: sublist_Cons_right)

text \<open>The in-memory search does what claim C7 says, for a \<open>localeCompare\<close> that is a
  consistent ordering: every product returned is a stored product whose name contains the
  upper-cased query; the list is in ascending order of name and has at most 10 entries;
  a matching product that is left out does not come before any that is returned; and
  when at most 10 products match, all of them are returned.\<close>

lemma searchProducts_first_ten:
  assumes "consistent (compare_name rt)"
  shows "set (searchProducts rt st query)
           \<subseteq> {p \<in> set (products st). sublist (toUpperCase rt query) (p_name p)}"
    and "sorted_wrt (\<lambda>a b. localeCompare rt (p_name a) (p_name b) \<le> 0) (searchProducts rt st query)"
    and "length (searchProducts rt st query) \<le> 10"
    and "\<forall>r \<in> set (searchProducts rt st query). \<forall>m \<in> set (products st).
           sublist (toUpperCase rt query) (p_name m) \<and> m \<notin> set (searchProducts rt st query)
           \<longrightarrow> localeCompare rt (p_name r) (p_name m) \<le> 0"
    and "length (filter (\<lambda>p. sublist (toUpperCase rt query) (p_name p)) (products st)) \<le> 10
         \<longrightarrow> mset (searchProducts rt st query)
               = mset (filter (\<lambda>p. sublist (toUpperCase rt query) (p_name p)) (products st))"
proof -
  let ?matches = "filter (\<lambda>p. sublist (toUpperCase rt query) (p_name p)) (products st)"
  let ?sorted = "js_sort (compare_name rt) ?matches"
  have res: "searchProducts rt st query = take 10 ?sorted"
    by (simp add: searchProducts_def str_includes_sublist)
  have le: "(\<lambda>a b. compare_name rt a b \<le> 0) = (\<lambda>a b. localeCompare rt (p_name a) (p_name b) \<le> 0)"
    by (simp add: compare_name_def)
  from sorted_js_sort [OF assms, of ?matches]
  have sorted: "sorted_wrt (\<lambda>a b. localeCompare rt (p_name a) (p_name b) \<le> 0) ?sorted"
    by (simp add: le)
  show "set (searchProducts rt st query)
           \<subseteq> {p \<in> set (products st). sublist (toUpperCase rt query) (p_name p)}"
    using set_take_subset [of 10 ?sorted] by (auto simp: res set_js_sort)
  show "sorted_wrt (\<lambda>a b. localeCompare rt (p_name a) (p_name b) \<le> 0) (searchProducts rt st query)"
    unfolding res using sorted by (rule sorted_wrt_take)
  show "length (searchProducts rt st query) \<le> 10"
    by (simp add: res)
  from sorted have "sorted_wrt (\<lambda>a b. localeCompare rt (p_name a) (p_name b) \<le> 0)
      (take 10 ?sorted @ drop 10 ?sorted)"
    by simp
  then have cross: "\<forall>r \<in> set (take 10 ?sorted). \<forall>m \<in> set (drop 10 ?sorted).
      localeCompare rt (p_name r) (p_name m) \<le> 0"
    by (simp only: sorted_wrt_append) blast
  show "\<forall>r \<in> set (searchProducts rt st query). \<forall>m \<in> set (products st).
           sublist (toUpperCase rt query) (p_name m) \<and> m \<notin> set (searchProducts rt st query)
           \<longrightarrow> localeCompare rt (p_name r) (p_name m) \<le> 0"
  proof (intro ballI impI)
    fix r m
    assume r: "r \<in> set (searchProducts rt st query)" and m: "m \<in> set (products st)"
      and h: "sublist (toUpperCase rt query) (p_name m) \<and> m \<notin> set (searchProducts rt st query)"
    from m h have "m \<in> set ?sorted" by (simp add: set_js_sort)
    then have "m \<in> set (take 10 ?sorted) \<union> set (drop 10 ?sorted)"
      by (metis append_take_drop_id set_append)
    with h have "m \<in> set (drop 10 ?sorted)" by (simp add: res)
    with cross r show "localeCompare rt (p_name r) (p_name m) \<le> 0"
      by (simp add: res)
  qed
  show "length ?matches \<le> 10 \<longrightarrow> mset (searchProducts rt st query) = mset ?matches"
    by (simp add: res length_js_sort mset_js_sort)
qed

subsection \<open>The durable search and \<open>LIKE\<close>\<close>

lemma like_match_percent [simp]: "like_match s ''%''"
  by (induction s) simp_all

lemma like_match_literal:
  "\<forall>c \<in> set p. \<not> like_special c \<Longrightarrow> like_match s (p @ ''%'') \<longleftrightarrow> prefix p s"
proof (induction p arbitrary: s)
  case Nil
  show ?case
    using like_match_percent [of s] by (simp del: like_match.simps)
next
  case (Cons c p)
  then have c: "c \<noteq> CHR ''%''" "c \<noteq> CHR ''_''" "c \<noteq> CHR 0x5C"
    by (simp_all add: like_special_def)
  from Cons have IH: "\<And>s. like_match s (p @ ''%'') \<longleftrightarrow> prefix p s" by simp
  show ?case
    by (cases s) (auto simp: c IH)
qed

text \<open>For a query without the characters \<open>%\<close>, \<open>_\<close> and backslash, the pattern
  \<^verbatim>\<open>%QUERY%\<close> matches exactly the names that contain the query.\<close>

lemma like_match_contains:
  assumes "\<forall>c \<in> set q. \<not> like_special c"
  shows "like_match s (''%'' @ q @ ''%'') \<longleftrightarrow> str_includes s q"
proof (induction s)
  case Nil
  from like_match_literal [OF assms, of "[]"] show ?case by simp
next
  case (Cons c s)
  from like_match_literal [OF assms, of "c # s"] Cons show ?case by simp
qed

text \<open>
  Claim C7 fails on the durable store: \<open>db_searchProducts\<close> hands the upper-cased
  query to \<^verbatim>\<open>LIKE\<close> between two \<^verbatim>\<open>%\<close> without escaping it, so \<^verbatim>\<open>_\<close> and \<^verbatim>\<open>%\<close> in a
  query are wildcards. The query \<^verbatim>\<open>_\<close> returns every product, although no name
  contains an underscore; the in-memory search returns none.
\<close>

theorem db_searchProducts_wildcard:
  "map r_name (db_searchProducts decimal_runtime compare_codes db2 ''_'') = [''ARROZ'', ''AZUCAR'']
   \<and> \<not> str_includes ''ARROZ'' (toUpperCase decimal_runtime ''_'')
   \<and> \<not> str_includes ''AZUCAR'' (toUpperCase decimal_runtime ''_'')
   \<and> map p_name (products store2) = [''ARROZ'', ''AZUCAR'']
   \<and> searchProducts decimal_runtime store2 ''_'' = []"
  by (simp add: db_searchProducts_def searchProducts_def db2_def store2_def arroz_def azucar_def
      decimal_runtime_sel toUpperCase_ascii_def js_sort_def)

lemma db_searchProducts_literal:
  assumes "\<forall>c \<in> set (toUpperCase rt query). \<not> like_special c"
  shows "db_searchProducts rt coll db query =
           take 10 (js_sort (\<lambda>a b. coll (r_name a) (r_name b))
             (filter (\<lambda>row. str_includes (r_name row) (toUpperCase rt query)) (products_table db)))"
proof -
  have "like_match s (''%'' @ toUpperCase rt query @ ''%'') = str_includes s (toUpperCase rt query)"
    for s
    by (rule like_match_contains [OF assms])
  then show ?thesis
    unfolding db_searchProducts_def by (simp only:)
qed

section \<open>The durable store's fixed margin and its price columns\<close>

text \<open>The durable store has no margin field: create and update multiply the purchase
  price by the literal \<open>1.2\<close>, the factor of the fixed margin of 20 per cent. The row
  holds both prices as the \<^verbatim>\<open>decimal(10, 2)\<close> columns convert them.\<close>

lemma db_createProduct_salePrice:
  "fst (db_createProduct rt dbnow now inp db) = Inr row \<Longrightarrow>
   numeric_10_2 (toFixed2 rt (parseFloat rt (s_purchasePrice inp) * lit rt ''1.2''))
     = Inr (r_salePrice row)
   \<and> numeric_10_2 (s_purchasePrice inp) = Inr (r_purchasePrice row)"
  by (auto simp: db_createProduct_def Let_def split: if_splits sum.splits)

lemma db_updateProduct_salePrice:
  "fst (db_updateProduct rt now i patch db) = Inr (Some row) \<Longrightarrow>
   numeric_10_2 (toFixed2 rt (parseFloat rt (s_purchasePrice patch) * lit rt ''1.2''))
     = Inr (r_salePrice row)
   \<and> numeric_10_2 (s_purchasePrice patch) = Inr (r_purchasePrice row)"
  by (auto simp: db_updateProduct_def Let_def split: option.splits if_splits sum.splits)

text \<open>A price the column does not take fails the call and leaves the database as it was.\<close>

lemma db_createProduct_rejects:
  "numeric_10_2 (s_purchasePrice inp) = Inl e \<Longrightarrow>
   db_createProduct rt dbnow now inp db = (Inl e, db)"
  by (simp add: db_createProduct_def Let_def)

lemma db_updateProduct_rejects:
  "numeric_10_2 (s_purchasePrice patch) = Inl e \<Longrightarrow>
   db_updateProduct rt now i patch db = (Inl e, db)"
  by (simp add: db_updateProduct_def Let_def)

section \<open>Rounding to a double\<close>

lemma rne_error: "\<bar>of_int (rne y) - y\<bar> \<le> 1 / 2"
proof -
  have lo: "of_int \<lfloor>y\<rfloor> \<le> y" and hi: "y < of_int \<lfloor>y\<rfloor> + 1"
    by linarith+
  consider "y - of_int \<lfloor>y\<rfloor> < 1 / 2" | "1 / 2 < y - of_int \<lfloor>y\<rfloor>" | "y - of_int \<lfloor>y\<rfloor> = 1 / 2"
    by linarith
  then show ?thesis
  proof cases
    case 1
    then have "rne y = \<lfloor>y\<rfloor>" by (simp add: rne_def Let_def)
    with 1 lo show ?thesis by simp
  next
    case 2
    then have "rne y = \<lfloor>y\<rfloor> + 1" by (simp add: rne_def Let_def)
    with 2 hi show ?thesis by simp
  next
    case 3
    then have "rne y = \<lfloor>y\<rfloor> \<or> rne y = \<lfloor>y\<rfloor> + 1" by (simp add: rne_def Let_def)
    with 3 show ?thesis by auto
  qed
qed

lemma rne_nonneg: "0 \<le> y \<Longrightarrow> 0 \<le> rne y"
  by (auto simp: rne_def Let_def)

lemma rne_down: "of_int f \<le> y \<Longrightarrow> y - of_int f < 1 / 2 \<Longrightarrow> rne y = f"
proof -
  assume a: "of_int f \<le> y" "y - of_int f < 1 / 2"
  then have "\<lfloor>y\<rfloor> = f" by linarith
  with a show ?thesis by (simp add: rne_def Let_def)
qed

lemma rne_up: "1 / 2 < y - of_int f \<Longrightarrow> y < of_int f + 1 \<Longrightarrow> rne y = f + 1"
proof -
  assume a: "1 / 2 < y - of_int f" "y < of_int f + 1"
  then have "\<lfloor>y\<rfloor> = f" by linarith
  with a show ?thesis by (simp add: rne_def Let_def)
qed

lemma rne_of_int: "rne (of_int n) = n"
  by (simp add: rne_def Let_def)

lemma powi_mono: "1 \<le> (b::rat) \<Longrightarrow> e \<le> e' \<Longrightarrow> b powi e \<le> b powi e'"
  by (simp add: power_int_increasing)

lemma powi_strict_mono: "1 < (b::rat) \<Longrightarrow> e < e' \<Longrightarrow> b powi e < b powi e'"
  by (simp add: power_int_strict_increasing)

lemma powi_add: "(b::rat) \<noteq> 0 \<Longrightarrow> b powi (m + n) = b powi m * b powi n"
  by (simp add: power_int_add)

lemma pow2_Suc: "(2::rat) powi (e + 1) = 2 * 2 powi e"
  by (simp add: power_int_add)

lemma floorlog_rat_bounds:
  assumes "0 < a" and "2 \<le> b"
  shows "(of_nat b :: rat) powi (int (floorlog b (nat a)) - 1) \<le> of_int a"
    and "of_int a < (of_nat b :: rat) powi (int (floorlog b (nat a)))"
proof -
  define l where "l = floorlog b (nat a)"
  from assms floorlog_bounds [of "nat a" b]
  have b: "b ^ (l - 1) \<le> nat a" "nat a < b ^ l"
    by (simp_all add: l_def)
  from assms have l1: "1 \<le> l"
    by (simp add: l_def floorlog_def)
  from b(1) have "int (b ^ (l - 1)) \<le> a"
    using assms by linarith
  then have "(of_int (int (b ^ (l - 1))) :: rat) \<le> of_int a"
    by (simp only: of_int_le_iff)
  then have "(of_nat b :: rat) ^ (l - 1) \<le> of_int a" by simp
  moreover have "(of_nat b :: rat) powi (int l - 1) = of_nat b ^ (l - 1)"
    using l1 by (simp add: power_int_def nat_diff_distrib')
  ultimately show "(of_nat b :: rat) powi (int (floorlog b (nat a)) - 1) \<le> of_int a"
    by (simp add: l_def)
  from b(2) have "a < int (b ^ l)"
    using assms by linarith
  then have "(of_int a :: rat) < of_int (int (b ^ l))"
    by (simp only: of_int_less_iff)
  then show "of_int a < (of_nat b :: rat) powi (int (floorlog b (nat a)))"
    by (simp add: l_def)
qed

lemma ilog_bounds:
  assumes "0 < x" and "2 \<le> b"
  shows "of_nat b powi (ilog b x) \<le> x \<and> x < of_nat b powi (ilog b x + 1)"
proof -
  obtain n d where q: "quotient_of x = (n, d)" by (cases "quotient_of x")
  then have d: "0 < d" and x: "x = of_int n / of_int d"
    by (simp_all add: quotient_of_denom_pos quotient_of_div)
  from assms d x have n: "0 < n"
    by (simp add: zero_less_divide_iff)
  define B :: rat where "B = of_nat b"
  have B: "B \<noteq> 0" "0 < B" using assms(2) by (simp_all add: B_def)
  define ln ld where "ln = int (floorlog b (nat n))" and "ld = int (floorlog b (nat d))"
  note N = floorlog_rat_bounds [OF n assms(2), folded ln_def B_def]
  note D = floorlog_rat_bounds [OF d assms(2), folded ld_def B_def]
  define e where "e = ln - ld"
  have rd: "(0::rat) < of_int d" using d by simp
  have lower: "B powi (e - 1) \<le> x"
  proof -
    have "B powi (e - 1) * of_int d \<le> B powi (e - 1) * B powi ld"
      using D(2) B by (simp add: mult_left_mono)
    also have "\<dots> = B powi (ln - 1)"
      using B by (simp add: e_def flip: powi_add)
    also have "\<dots> \<le> of_int n" by (rule N(1))
    finally show ?thesis
      using rd by (simp add: x pos_le_divide_eq)
  qed
  have upper: "x < B powi (e + 1)"
  proof -
    have "of_int n < B powi ln" by (rule N(2))
    also have "\<dots> = B powi (e + 1) * B powi (ld - 1)"
      using B by (simp add: e_def flip: powi_add)
    also have "\<dots> \<le> B powi (e + 1) * of_int d"
      using D(1) B by (simp add: mult_left_mono)
    finally show ?thesis
      using rd by (simp add: x pos_divide_less_eq)
  qed
  have il: "ilog b x = (if B powi e \<le> x then e else e - 1)"
    by (simp add: ilog_def q Let_def e_def ln_def ld_def B_def)
  show ?thesis
  proof (cases "B powi e \<le> x")
    case True
    with il upper show ?thesis by (simp add: B_def)
  next
    case False
    with il lower show ?thesis by (simp add: B_def)
  qed
qed

lemma ilog_unique:
  assumes "0 < x" and "2 \<le> b" and "of_nat b powi e \<le> x" and "x < of_nat b powi (e + 1)"
  shows "ilog b x = e"
proof (rule ccontr)
  assume ne: "ilog b x \<noteq> e"
  have B: "1 \<le> (of_nat b :: rat)" using assms(2) by simp
  from ilog_bounds [OF assms(1,2)]
  have b: "of_nat b powi (ilog b x) \<le> x" "x < of_nat b powi (ilog b x + 1)"
    by simp_all
  from ne consider "ilog b x + 1 \<le> e" | "e + 1 \<le> ilog b x" by linarith
  then show False
  proof cases
    case 1
    from powi_mono [OF B 1] b(2) assms(3) show False by linarith
  next
    case 2
    from powi_mono [OF B 2] b(1) assms(4) show False by linarith
  qed
qed

lemma ilog2_unique:
  assumes "0 < x" and "2 powi e \<le> x" and "x < 2 powi (e + 1)"
  shows "ilog 2 x = e"
  using ilog_unique [of x 2 e] assms by simp

lemma ilog10_unique:
  assumes "0 < x" and "10 powi e \<le> x" and "x < 10 powi (e + 1)"
  shows "ilog 10 x = e"
  using ilog_unique [of x 10 e] assms by simp

lemma ilog2_le:
  assumes "0 < x" and "x \<le> 2 powi k"
  shows "ilog 2 x \<le> k"
proof (rule ccontr)
  assume "\<not> ilog 2 x \<le> k"
  then have "k < ilog 2 x" by simp
  then have "(2::rat) powi k < 2 powi (ilog 2 x)"
    by (intro powi_strict_mono) simp_all
  with ilog_bounds [OF assms(1), of 2] assms(2) show False
    by simp
qed

text \<open>The error of rounding to a double: half a unit in the last place.\<close>

lemma fl_error:
  assumes "\<bar>x\<bar> \<le> 2 powi k" and "- 1022 \<le> k" and "k \<le> 1023"
  shows "\<exists>r. fl x = Fin r \<and> \<bar>r - x\<bar> \<le> 2 powi (k - 53) \<and> (0 \<le> x \<longrightarrow> 0 \<le> r)"
proof (cases "x = 0")
  case True
  then show ?thesis by (simp add: fl_def)
next
  case False
  then have ax: "0 < \<bar>x\<bar>" by simp
  define e where "e = max (ilog 2 \<bar>x\<bar>) (- 1022)"
  define ulp :: rat where "ulp = 2 powi (e - 52)"
  define r where "r = of_int (rne (\<bar>x\<bar> / ulp)) * ulp"
  have ek: "e \<le> k"
    using ilog2_le [OF ax assms(1)] assms(2) by (simp add: e_def)
  have up: "0 < ulp" by (simp add: ulp_def)
  have "\<bar>of_int (rne (\<bar>x\<bar> / ulp)) - \<bar>x\<bar> / ulp\<bar> \<le> 1 / 2"
    by (rule rne_error)
  then have "\<bar>of_int (rne (\<bar>x\<bar> / ulp)) - \<bar>x\<bar> / ulp\<bar> * ulp \<le> 1 / 2 * ulp"
    using up by (simp add: mult_right_mono)
  moreover have "\<bar>of_int (rne (\<bar>x\<bar> / ulp)) - \<bar>x\<bar> / ulp\<bar> * ulp = \<bar>r - \<bar>x\<bar>\<bar>"
  proof -
    have "(of_int (rne (\<bar>x\<bar> / ulp)) - \<bar>x\<bar> / ulp) * ulp = r - \<bar>x\<bar>"
      using up by (simp add: r_def left_diff_distrib)
    then have "\<bar>r - \<bar>x\<bar>\<bar> = \<bar>of_int (rne (\<bar>x\<bar> / ulp)) - \<bar>x\<bar> / ulp\<bar> * \<bar>ulp\<bar>"
      by (simp only: abs_mult [symmetric])
    with up show ?thesis by simp
  qed
  moreover have "1 / 2 * ulp = 2 powi (e - 53)"
    by (simp add: ulp_def power_int_diff)
  ultimately have err: "\<bar>r - \<bar>x\<bar>\<bar> \<le> 2 powi (e - 53)" by simp
  also have "\<dots> \<le> 2 powi (k - 53)"
    using ek by (simp add: powi_mono)
  finally have errk: "\<bar>r - \<bar>x\<bar>\<bar> \<le> 2 powi (k - 53)" .
  have r0: "0 \<le> r"
    using up rne_nonneg [of "\<bar>x\<bar> / ulp"] by (simp add: r_def)
  have "r \<le> \<bar>x\<bar> + 2 powi (k - 53)" using errk by linarith
  also have "\<dots> \<le> 2 powi k + 2 powi (k - 53)" using assms(1) by simp
  also have "\<dots> < 2 powi (k + 1)"
    using powi_strict_mono [of 2 "k - 53" k] by (simp add: pow2_Suc)
  also have "\<dots> \<le> overflow_threshold"
    unfolding overflow_threshold_def using assms(3) by (intro powi_mono) simp_all
  finally have noov: "\<not> overflow_threshold \<le> r" by simp
  have flx: "fl x = Fin (if 0 < x then r else - r)"
    using False noov unfolding fl_def Let_def e_def [symmetric] ulp_def [symmetric] r_def [symmetric]
    by simp
  show ?thesis
  proof (cases "0 < x")
    case True
    with flx errk r0 show ?thesis by simp
  next
    case neg: False
    with False have "x < 0" by simp
    with flx errk show ?thesis by (auto simp: abs_if split: if_splits)
  qed
qed

text \<open>Rounding a given positive number: with its binary exponent \<open>e\<close> at hand, the double
  is the rounded multiple of \<open>2 ^ (e - 52)\<close>.\<close>

lemma fl_eval:
  assumes "0 < x" and "2 powi e \<le> x" and "x < 2 powi (e + 1)"
    and "- 1022 \<le> e" and "e \<le> 1022"
    and "rne (x / 2 powi (e - 52)) = n"
  shows "fl x = Fin (of_int n * 2 powi (e - 52))"
proof -
  have il: "ilog 2 \<bar>x\<bar> = e"
    using assms(1-3) by (intro ilog2_unique) simp_all
  have ax: "\<bar>x\<bar> = x" using assms(1) by simp
  have "\<bar>x\<bar> \<le> 2 powi (e + 1)" using assms(3) ax by simp
  from fl_error [OF this] assms(4,5)
  obtain r where r: "fl x = Fin r" by auto
  have m: "max (ilog 2 \<bar>x\<bar>) (- 1022) = e"
    using il assms(4) by simp
  have "fl x = (if overflow_threshold \<le> of_int n * 2 powi (e - 52) then PInf
                else Fin (of_int n * 2 powi (e - 52)))"
    using assms(1) m assms(6) by (simp add: fl_def Let_def ax)
  with r show ?thesis by (simp split: if_splits)
qed

lemma fl_0: "fl 0 = Fin 0"
  by (simp add: fl_def)

section \<open>Evaluating the double arithmetic\<close>

lemma floor_numeral_div: "\<lfloor>(numeral a / numeral b :: rat)\<rfloor> = numeral a div numeral b"
  using floor_divide_of_int_eq [of "numeral a" "numeral b", where ?'a = rat] by simp

lemma floor_neg_numeral_div:
  "\<lfloor>- (numeral a / numeral b :: rat)\<rfloor> = (- numeral a) div numeral b"
  using floor_divide_of_int_eq [of "- numeral a" "numeral b", where ?'a = rat] by simp

lemma fl_down:
  assumes "0 < x" and "2 powi e \<le> x" and "x < 2 powi (e + 1)"
    and "- 1022 \<le> e" and "e \<le> 1022"
    and "of_int n \<le> x / 2 powi (e - 52)" and "x / 2 powi (e - 52) - of_int n < 1 / 2"
    and "r = of_int n * 2 powi (e - 52)"
  shows "fl x = Fin r"
  using fl_eval [OF assms(1-5) rne_down [OF assms(6,7)]] assms(8) by simp

lemma fl_up:
  assumes "0 < x" and "2 powi e \<le> x" and "x < 2 powi (e + 1)"
    and "- 1022 \<le> e" and "e \<le> 1022"
    and "1 / 2 < x / 2 powi (e - 52) - of_int n" and "x / 2 powi (e - 52) < of_int n + 1"
    and "r = of_int (n + 1) * 2 powi (e - 52)"
  shows "fl x = Fin r"
  using fl_eval [OF assms(1-5) rne_up [OF assms(6,7)]] assms(8) by simp

lemma fl_exact:
  assumes "0 < x" and "2 powi e \<le> x" and "x < 2 powi (e + 1)"
    and "- 1022 \<le> e" and "e \<le> 1022"
    and "x / 2 powi (e - 52) = of_int n"
  shows "fl x = Fin x"
proof -
  have "rne (x / 2 powi (e - 52)) = n"
    unfolding assms(6) by (rule rne_of_int)
  from fl_eval [OF assms(1-5) this] have "fl x = Fin (of_int n * 2 powi (e - 52))" .
  also have "of_int n * 2 powi (e - 52) = x"
    unfolding assms(6) [symmetric] by simp
  finally show ?thesis .
qed

lemma fl_small_values:
  "fl 1 = Fin 1"
  "fl 20 = Fin 20"
  "fl 30 = Fin 30"
  "fl 100 = Fin 100"
     apply (rule fl_exact [where e = 0 and n = 4503599627370496]; simp)
    apply (rule fl_exact [where e = 4 and n = 5629499534213120]; simp)
   apply (rule fl_exact [where e = 4 and n = 8444249301319680]; simp)
  apply (rule fl_exact [where e = 6 and n = 7036874417766400]; simp)
  done

lemma fl_115: "fl (23 / 20) = Fin (2589569785738035 / 2251799813685248)"
  by (rule fl_down [where e = 0 and n = 5179139571476070]) simp_all




lemmas numeral_eval = numeral_value_def numeral_prefix_def unsigned_prefix_def exponent_part_def
  is_space_def is_digit_def digit_value_def digits_value_def Let_def

lemma numeral_value_examples:
  "numeral_value ''1'' = Some 1"
  "numeral_value ''20'' = Some 20"
  "numeral_value ''30'' = Some 30"
  "numeral_value ''100'' = Some 100"
  "numeral_value ''1.15'' = Some (23 / 20)"
  "numeral_value ''49.99'' = Some (4999 / 100)"
  "numeral_value ''20.00'' = Some 20"
  "numeral_value ''1e3'' = Some 1000"
  "numeral_value ''  -.5x'' = Some (- 1 / 2)"
  "numeral_value ''12abc'' = Some 12"
  "numeral_value ''abc'' = None"
  "numeral_value [] = None"
  by (simp_all add: numeral_eval)

lemma parseFloat_double_numeral: "numeral_value s = Some q \<Longrightarrow> parseFloat_double s = fl q"
  by (simp add: numeral_value_def parseFloat_double_def split: option.splits)

lemma parseFloat_double_examples:
  "parseFloat_double ''1'' = Fin 1"
  "parseFloat_double ''20'' = Fin 20"
  "parseFloat_double ''30'' = Fin 30"
  "parseFloat_double ''100'' = Fin 100"
  "parseFloat_double ''1.15'' = Fin (2589569785738035 / 2251799813685248)"
  using parseFloat_double_numeral [OF numeral_value_examples(1)]
    parseFloat_double_numeral [OF numeral_value_examples(2)]
    parseFloat_double_numeral [OF numeral_value_examples(3)]
    parseFloat_double_numeral [OF numeral_value_examples(4)]
    parseFloat_double_numeral [OF numeral_value_examples(5)]
  by (simp_all only: fl_small_values fl_115)

lemma parseFloat_double_not_numbers:
  "parseFloat_double ''abc'' = JNaN"
  "parseFloat_double [] = JNaN"
  "parseFloat_double ''-Infinity'' = NInf"
  by (simp_all add: parseFloat_double_def numeral_eval)

lemma double_runtime_sel:
  "parseFloat double_runtime = parseFloat_double"
  "toFixed2 double_runtime = toFixed2_double"
  "toString double_runtime = toString_double"
  "lit double_runtime = parseFloat_double"
  "isNaN double_runtime = (\<lambda>x. x = JNaN)"
  "parseInt double_runtime = parseInt_dec"
  "toUpperCase double_runtime = toUpperCase_ascii"
  "localeCompare double_runtime = compare_codes"
  "setDate_plus double_runtime = (\<lambda>k d. d + k * 86400000)"
  by (simp_all add: double_runtime_def)

lemma cents_string_examples:
  "cents_string 149 = ''1.49''"
  "cents_string 150 = ''1.50''"
  "cents_string 5999 = ''59.99''"
  "cents_string 12000 = ''120.00''"
  "cents_string 5 = ''0.05''"
  by (simp_all add: cents_string_def show_int.simps)


section \<open>The sale price in double arithmetic\<close>

lemma abs_product_error:
  fixes a b a0 b0 :: rat
  assumes "\<bar>a - a0\<bar> \<le> ea" and "\<bar>b - b0\<bar> \<le> eb" and "\<bar>b\<bar> \<le> B" and "\<bar>a0\<bar> \<le> A"
  shows "\<bar>a * b - a0 * b0\<bar> \<le> ea * B + A * eb"
proof -
  have "a * b - a0 * b0 = (a - a0) * b + a0 * (b - b0)"
    by (simp add: algebra_simps)
  then have "\<bar>a * b - a0 * b0\<bar> \<le> \<bar>(a - a0) * b\<bar> + \<bar>a0 * (b - b0)\<bar>"
    by (simp only: abs_triangle_ineq)
  also have "\<bar>(a - a0) * b\<bar> = \<bar>a - a0\<bar> * \<bar>b\<bar>" by (rule abs_mult)
  also have "\<bar>a0 * (b - b0)\<bar> = \<bar>a0\<bar> * \<bar>b - b0\<bar>" by (rule abs_mult)
  also have "\<bar>a - a0\<bar> * \<bar>b\<bar> + \<bar>a0\<bar> * \<bar>b - b0\<bar> \<le> ea * B + A * eb"
  proof (rule add_mono)
    show "\<bar>a - a0\<bar> * \<bar>b\<bar> \<le> ea * B"
      using assms(1,3) by (intro mult_mono) (auto intro: order_trans [OF abs_ge_zero])
    show "\<bar>a0\<bar> * \<bar>b - b0\<bar> \<le> A * eb"
      using assms(2,4) by (intro mult_mono) (auto intro: order_trans [OF abs_ge_zero])
  qed
  finally show ?thesis .
qed

text \<open>The double that \<open>p * (1 + m / 100)\<close> evaluates to, from the doubles nearest to \<open>p\<close>
  and \<open>m\<close>: four roundings, each of half a unit in the last place.\<close>

lemma double_price_error:
  assumes "0 < p" and "p \<le> 10 ^ 8" and "0 \<le> m" and "m \<le> 1000"
  shows "\<exists>R. fl p * (Fin 1 + fl m / Fin 100) = Fin R \<and> 0 \<le> R \<and> R < 10 ^ 21
             \<and> \<bar>R - p * (1 + m / 100)\<bar> \<le> 1 / 524288"
proof -
  have "\<bar>p\<bar> \<le> 2 powi 27" using assms(1,2) by simp
  from fl_error [OF this]
  obtain P where P: "fl p = Fin P" "\<bar>P - p\<bar> \<le> 1 / 67108864" "0 \<le> P"
    using assms(1) by auto
  have "\<bar>m\<bar> \<le> 2 powi 10" using assms(3,4) by simp
  from fl_error [OF this]
  obtain M where M: "fl m = Fin M" "\<bar>M - m\<bar> \<le> 1 / 8796093022208" "0 \<le> M"
    using assms(3) by auto
  have "\<bar>M / 100\<bar> \<le> 2 powi 4" using M(2,3) assms(4) by (simp; linarith)
  from fl_error [OF this]
  obtain Q where Q: "fl (M / 100) = Fin Q" "\<bar>Q - M / 100\<bar> \<le> 1 / 562949953421312" "0 \<le> Q"
    using M(3) by auto
  have "\<bar>1 + Q\<bar> \<le> 2 powi 4" using Q(2,3) M(2,3) assms(4) by (simp; linarith)
  from fl_error [OF this]
  obtain S where S: "fl (1 + Q) = Fin S" "\<bar>S - (1 + Q)\<bar> \<le> 1 / 562949953421312" "0 \<le> S"
    using Q(3) by auto
  have p8: "p \<le> 100000000" using assms(2) by simp
  have Ple: "P \<le> 100000001" using P(2) p8 by linarith
  have Sle: "S \<le> 12" using S(2) Q(2) M(2) assms(4) by linarith
  have "P * S \<le> 100000001 * 12"
    using Ple Sle P(3) S(3) by (intro mult_mono) simp_all
  moreover have "0 \<le> P * S" using P(3) S(3) by simp
  ultimately have "\<bar>P * S\<bar> \<le> 2 powi 31" by (simp; linarith)
  from fl_error [OF this]
  obtain R where R: "fl (P * S) = Fin R" "\<bar>R - P * S\<bar> \<le> 1 / 4194304" "0 \<le> R"
    using \<open>0 \<le> P * S\<close> by auto
  have eq: "fl p * (Fin 1 + fl m / Fin 100) = Fin R"
    by (simp add: P(1) M(1) Q(1) S(1) R(1))
  have Serr: "\<bar>S - (1 + m / 100)\<bar> \<le> 1 / 140737488355328"
    using S(2) Q(2) M(2) by linarith
  have "\<bar>P * S - p * (1 + m / 100)\<bar> \<le> 1 / 67108864 * 12 + 100000000 * (1 / 140737488355328)"
  proof (rule abs_product_error [OF P(2) Serr])
    show "\<bar>S\<bar> \<le> 12" using Sle S(3) by simp
    show "\<bar>p\<bar> \<le> 100000000" using assms(1,2) by simp
  qed
  with R(2) have err: "\<bar>R - p * (1 + m / 100)\<bar> \<le> 1 / 524288" by linarith
  have "R \<le> P * S + 1" using R(2) by linarith
  with \<open>P * S \<le> 100000001 * 12\<close> have "R < 10 ^ 21" by (simp; linarith)
  with eq R(3) err show ?thesis by blast
qed

text \<open>Rounding to hundredths a number that is near the exact amount.\<close>

lemma round_cents_near:
  assumes "\<bar>R - x\<bar> \<le> 1 / 524288"
  shows "\<bar>round_cents R - round_cents x\<bar> \<le> 1"
    and "1 / 1000 < \<bar>x * 100 - (of_int \<lfloor>x * 100\<rfloor> + 1 / 2)\<bar> \<Longrightarrow> round_cents R = round_cents x"
proof -
  define y z where "y = x * 100" and "z = R * 100"
  have zy: "\<bar>z - y\<bar> < 1 / 1000"
    using assms unfolding y_def z_def by linarith
  define f where "f = \<lfloor>y\<rfloor>"
  have f: "of_int f \<le> y" "y < of_int f + 1"
    unfolding f_def by linarith+
  have rc: "round_cents x = \<lfloor>y + 1 / 2\<rfloor>" "round_cents R = \<lfloor>z + 1 / 2\<rfloor>"
    by (simp_all add: round_cents_def y_def z_def)
  have "\<lfloor>y + 1 / 2\<rfloor> - 1 \<le> \<lfloor>z + 1 / 2\<rfloor>" "\<lfloor>z + 1 / 2\<rfloor> \<le> \<lfloor>y + 1 / 2\<rfloor> + 1"
    using zy by linarith+
  then show "\<bar>round_cents R - round_cents x\<bar> \<le> 1"
    unfolding rc by simp
  assume "1 / 1000 < \<bar>x * 100 - (of_int \<lfloor>x * 100\<rfloor> + 1 / 2)\<bar>"
  then have far: "1 / 1000 < \<bar>y - (of_int f + 1 / 2)\<bar>"
    by (simp add: y_def f_def)
  then consider "y < of_int f + 1 / 2 - 1 / 1000" | "of_int f + 1 / 2 + 1 / 1000 < y"
    by linarith
  then have "\<lfloor>z + 1 / 2\<rfloor> = \<lfloor>y + 1 / 2\<rfloor>"
  proof cases
    case 1
    have "\<lfloor>y + 1 / 2\<rfloor> = f" using 1 f by (intro floor_unique; linarith)
    moreover have "\<lfloor>z + 1 / 2\<rfloor> = f" using 1 f zy by (intro floor_unique; linarith)
    ultimately show ?thesis by simp
  next
    case 2
    have "\<lfloor>y + 1 / 2\<rfloor> = f + 1" using 2 f by (intro floor_unique; simp; linarith)
    moreover have "\<lfloor>z + 1 / 2\<rfloor> = f + 1" using 2 f zy by (intro floor_unique; simp; linarith)
    ultimately show ?thesis by simp
  qed
  then show "round_cents R = round_cents x"
    unfolding rc by simp
qed

lemma toFixed2_double_cents:
  "0 \<le> R \<Longrightarrow> R < 10 ^ 21 \<Longrightarrow> toFixed2_double (Fin R) = cents_string (round_cents R)"
  by (simp add: toFixed2_double_def round_cents_def)

text \<open>What \<open>derive_sale_price\<close> returns in double arithmetic, for the numerals \<open>p\<close> and
  \<open>m\<close>.\<close>

lemma derive_sale_price_double:
  assumes "0 < p" and "p \<le> 10 ^ 8" and "0 \<le> m" and "m \<le> 1000"
  shows "\<exists>c. derive_sale_price double_runtime (fl p) (fl m) = cents_string c
             \<and> \<bar>c - round_cents (p * (1 + m / 100))\<bar> \<le> 1
             \<and> (1 / 1000 < \<bar>p * (1 + m / 100) * 100 - (of_int \<lfloor>p * (1 + m / 100) * 100\<rfloor> + 1 / 2)\<bar>
                  \<longrightarrow> c = round_cents (p * (1 + m / 100)))"
proof -
  from double_price_error [OF assms]
  obtain R where R: "fl p * (Fin 1 + fl m / Fin 100) = Fin R" "0 \<le> R" "R < 10 ^ 21"
      "\<bar>R - p * (1 + m / 100)\<bar> \<le> 1 / 524288"
    by blast
  have "derive_sale_price double_runtime (fl p) (fl m) = cents_string (round_cents R)"
    by (simp add: derive_sale_price_def double_runtime_sel parseFloat_double_examples R(1)
        toFixed2_double_cents [OF R(2,3)])
  with round_cents_near [OF R(4)] show ?thesis by blast
qed

section \<open>Printing doubles\<close>

declare shortest_digits.simps [simp del] strip_zeros.simps [simp del]

lemma fl_more_values:
  "fl 10 = Fin 10"
  "fl 12 = Fin 12"
  "fl 13 = Fin 13"
  "fl (25 / 2) = Fin (25 / 2)"
     apply (rule fl_exact [where e = 3 and n = 5629499534213120]; simp)
    apply (rule fl_exact [where e = 3 and n = 6755399441055744]; simp)
   apply (rule fl_exact [where e = 3 and n = 7318349394477056]; simp)
  apply (rule fl_exact [where e = 3 and n = 7036874417766400]; simp)
  done

lemma ilog10_examples:
  "ilog 10 20 = 1"
  "ilog 10 30 = 1"
  "ilog 10 (25 / 2) = 1"
  by (rule ilog10_unique; simp)+

lemma shortest_digits_examples:
  "shortest_digits 20 2 1 = (2, 1)"
  "shortest_digits 30 2 1 = (3, 1)"
  "shortest_digits (25 / 2) 2 1 = (125, - 1)"
proof -
  show "shortest_digits 20 2 1 = (2, 1)"
    by (subst shortest_digits.simps) (simp add: Let_def fl_small_values)
  show "shortest_digits 30 2 1 = (3, 1)"
    by (subst shortest_digits.simps) (simp add: Let_def fl_small_values)
  have "shortest_digits (25 / 2) 2 3 = (125, - 1)"
    by (subst shortest_digits.simps) (simp add: Let_def fl_more_values)
  then have "shortest_digits (25 / 2) 2 2 = (125, - 1)"
    by (subst shortest_digits.simps)
      (simp add: Let_def fl_more_values floor_numeral_div floor_neg_numeral_div ceiling_def)
  then show "shortest_digits (25 / 2) 2 1 = (125, - 1)"
    by (subst shortest_digits.simps)
      (simp add: Let_def fl_more_values fl_small_values floor_numeral_div floor_neg_numeral_div ceiling_def)
qed

lemma strip_zeros_examples:
  "strip_zeros 2 1 = (2, 1)"
  "strip_zeros 3 1 = (3, 1)"
  "strip_zeros 125 (- 1) = (125, - 1)"
  by (subst strip_zeros.simps, simp)+

lemma toString_double_examples:
  "toString_double (Fin 20) = ''20''"
  "toString_double (Fin 30) = ''30''"
  "toString_double (Fin (25 / 2)) = ''12.5''"
  by (simp_all add: toString_double_def toString_pos_def ilog10_examples Let_def
      shortest_digits_examples strip_zeros_examples show_int.simps)

section \<open>The sale price of a product\<close>





section \<open>Reading back an updated product\<close>


lemma derive_sale_price_10_20:
  "derive_sale_price double_runtime (Fin 10) (Fin 20) = ''12.00''"
proof -
  from derive_sale_price_double [of 10 20]
  obtain c where c: "derive_sale_price double_runtime (fl 10) (fl 20) = cents_string c"
      "1 / 1000 < \<bar>(10::rat) * (1 + 20 / 100) * 100 - (of_int \<lfloor>(10::rat) * (1 + 20 / 100) * 100\<rfloor> + 1 / 2)\<bar>
         \<longrightarrow> c = round_cents (10 * (1 + 20 / 100))"
    by auto
  have "c = 1200"
    using c(2) by (simp add: round_cents_def floor_numeral_div)
  with c(1) show ?thesis
    by (simp add: cents_string_def show_int.simps fl_more_values fl_small_values)
qed

text \<open>
  Claim C8, as stated, fails: a patch that supplies the empty string as barcode is not
  reflected. \<open>updateProduct\<close> takes \<open>barcode\<close>, \<open>buyerName\<close> and \<open>profitMargin\<close> with
  \<^verbatim>\<open>patch.x || stored.x\<close>, so an empty string counts as omitted and the stored value
  stays.
\<close>

theorem update_reflects_every_field_counterexample:
  "getProductById store1 1 = Some arroz
   \<and> i_barcode patch_empty_barcode = Some []
   \<and> (\<exists>p. getProductById (snd (updateProduct decimal_runtime 5000 1 patch_empty_barcode store1)) 1
             = Some p
          \<and> p_barcode p = Some ''7701''
          \<and> p_barcode p \<noteq> i_barcode patch_empty_barcode)"
proof -
  have get: "getProductById store1 1 = Some arroz"
    by (simp add: store1_eq getProductById_def arroz_def)
  have bc: "i_barcode patch_empty_barcode = Some []" "p_barcode arroz = Some ''7701''"
    by (simp_all add: patch_empty_barcode_def arroz_def)
  from updateProduct_existing [OF get, of decimal_runtime 5000 patch_empty_barcode]
  have "\<exists>p. getProductById (snd (updateProduct decimal_runtime 5000 1 patch_empty_barcode store1)) 1
             = Some p
          \<and> p_barcode p = Some ''7701''"
    by (auto simp: bc or_str_def)
  with get bc show ?thesis
    by auto
qed

text \<open>
  Claim C8, amended. For an existing identifier, \<open>updateProduct\<close> followed by
  \<open>getProductById\<close> yields the product that the update returned: with the patch's name
  and purchase price; with the patch's stock and minimum stock where supplied (0
  included) and the stored ones otherwise; with the patch's barcode and buyer name where
  supplied and not empty, and the stored ones otherwise; with the same identifier and
  creation time, and \<open>updatedAt\<close> set to the time of the update. The margin in force is
  the patch's where supplied and not empty, and the stored one otherwise; the sale price
  is derived from the new purchase price and the number the margin in force parses to,
  and \<open>profitMargin\<close> becomes the runtime's print of that number, not the string that
  was supplied or stored: a patch with the margin \<open>20.00\<close> stores \<open>20\<close>.
\<close>

theorem update_then_get_roundtrip:
  assumes "getProductById st i = Some old"
  shows "\<exists>p. fst (updateProduct rt now i patch st) = Some p
           \<and> getProductById (snd (updateProduct rt now i patch st)) i = Some p
           \<and> p_id p = i \<and> p_createdAt p = p_createdAt old \<and> p_updatedAt p = now
           \<and> p_name p = i_name patch
           \<and> p_purchasePrice p = i_purchasePrice patch
           \<and> p_stock p = (case i_stock patch of Some s \<Rightarrow> Some s | None \<Rightarrow> p_stock old)
           \<and> p_minStock p = (case i_minStock patch of Some s \<Rightarrow> Some s | None \<Rightarrow> p_minStock old)
           \<and> p_barcode p = (if truthy_str (i_barcode patch) then i_barcode patch else p_barcode old)
           \<and> p_buyerName p
               = (if truthy_str (i_buyerName patch) then i_buyerName patch else p_buyerName old)
           \<and> p_salePrice p
               = derive_sale_price rt (parseFloat rt (i_purchasePrice patch))
                   (parseFloat rt (if truthy_str (i_profitMargin patch)
                                   then the (i_profitMargin patch) else p_profitMargin old))
           \<and> p_profitMargin p
               = toString rt (parseFloat rt (if truthy_str (i_profitMargin patch)
                                             then the (i_profitMargin patch) else p_profitMargin old))"
proof -
  from assms have "p_id old = i"
    by (auto simp: getProductById_def dest: find_Some_mem)
  with updateProduct_existing [OF assms, of rt now patch] show ?thesis
    by (auto simp: or_str_def)
qed

theorem update_then_get_roundtrip_witness:
  "getProductById store1 1 = Some arroz
   \<and> (\<exists>p. fst (updateProduct decimal_runtime 5000 1 patch_no_margin store1) = Some p
         \<and> getProductById (snd (updateProduct decimal_runtime 5000 1 patch_no_margin store1)) 1 = Some p
         \<and> p = \<lparr>p_id = 1, p_name = ''ARROZ'', p_barcode = Some ''7701'', p_purchasePrice = ''10.00'',
                 p_salePrice = ''13.00'', p_profitMargin = ''30'', p_buyerName = Some ''LUIS'',
                 p_stock = Some 0, p_minStock = None, p_createdAt = 1000, p_updatedAt = 5000\<rparr>)
   \<and> i_profitMargin patch_margin_2000 = Some ''20.00''
   \<and> (\<exists>p. fst (updateProduct double_runtime 5000 1 patch_margin_2000 store1) = Some p
         \<and> getProductById (snd (updateProduct double_runtime 5000 1 patch_margin_2000 store1)) 1 = Some p
         \<and> p = \<lparr>p_id = 1, p_name = ''ARROZ'', p_barcode = Some ''7701'', p_purchasePrice = ''10.00'',
                 p_salePrice = ''12.00'', p_profitMargin = ''20'', p_buyerName = None,
                 p_stock = Some 5, p_minStock = None, p_createdAt = 1000, p_updatedAt = 5000\<rparr>)"
proof -
  have get: "getProductById store1 1 = Some arroz"
    by (simp add: store1_eq getProductById_def arroz_def)
  from update_then_get_roundtrip [OF get, of decimal_runtime 5000 patch_no_margin]
  obtain p where p: "fst (updateProduct decimal_runtime 5000 1 patch_no_margin store1) = Some p"
      "getProductById (snd (updateProduct decimal_runtime 5000 1 patch_no_margin store1)) 1 = Some p"
    and f: "p_id p = 1" "p_createdAt p = 1000" "p_updatedAt p = 5000" "p_name p = ''ARROZ''"
      "p_purchasePrice p = ''10.00''" "p_stock p = Some 0" "p_minStock p = None"
      "p_barcode p = Some ''7701''" "p_buyerName p = Some ''LUIS''"
      "p_salePrice p = ''13.00''" "p_profitMargin p = ''30''"
    by (auto simp: patch_no_margin_def arroz_def decimal_runtime_sel derive_examples toString_examples)
  from f have "p = \<lparr>p_id = 1, p_name = ''ARROZ'', p_barcode = Some ''7701'', p_purchasePrice = ''10.00'',
                 p_salePrice = ''13.00'', p_profitMargin = ''30'', p_buyerName = Some ''LUIS'',
                 p_stock = Some 0, p_minStock = None, p_createdAt = 1000, p_updatedAt = 5000\<rparr>"
    by (cases p) simp
  with p have a: "\<exists>p. fst (updateProduct decimal_runtime 5000 1 patch_no_margin store1) = Some p
         \<and> getProductById (snd (updateProduct decimal_runtime 5000 1 patch_no_margin store1)) 1 = Some p
         \<and> p = \<lparr>p_id = 1, p_name = ''ARROZ'', p_barcode = Some ''7701'', p_purchasePrice = ''10.00'',
                 p_salePrice = ''13.00'', p_profitMargin = ''30'', p_buyerName = Some ''LUIS'',
                 p_stock = Some 0, p_minStock = None, p_createdAt = 1000, p_updatedAt = 5000\<rparr>"
    by blast
  have m: "i_profitMargin patch_margin_2000 = Some ''20.00''"
    by (simp add: patch_margin_2000_def)
  have num: "parseFloat_double ''10.00'' = fl 10" "parseFloat_double ''20.00'' = fl 20"
    by (simp_all add: parseFloat_double_def numeral_eval)
  from update_then_get_roundtrip [OF get, of double_runtime 5000 patch_margin_2000]
  obtain q where q: "fst (updateProduct double_runtime 5000 1 patch_margin_2000 store1) = Some q"
      "getProductById (snd (updateProduct double_runtime 5000 1 patch_margin_2000 store1)) 1 = Some q"
    and g: "p_id q = 1" "p_createdAt q = 1000" "p_updatedAt q = 5000" "p_name q = ''ARROZ''"
      "p_purchasePrice q = ''10.00''" "p_stock q = Some 5" "p_minStock q = None"
      "p_barcode q = Some ''7701''" "p_buyerName q = None"
      "p_salePrice q = ''12.00''" "p_profitMargin q = ''20''"
    by (auto simp: patch_margin_2000_def arroz_def double_runtime_sel num derive_sale_price_10_20
        fl_small_values fl_more_values toString_double_examples)
  from g have "q = \<lparr>p_id = 1, p_name = ''ARROZ'', p_barcode = Some ''7701'', p_purchasePrice = ''10.00'',
                 p_salePrice = ''12.00'', p_profitMargin = ''20'', p_buyerName = None,
                 p_stock = Some 5, p_minStock = None, p_createdAt = 1000, p_updatedAt = 5000\<rparr>"
    by (cases q) simp
  with q have b: "\<exists>p. fst (updateProduct double_runtime 5000 1 patch_margin_2000 store1) = Some p
         \<and> getProductById (snd (updateProduct double_runtime 5000 1 patch_margin_2000 store1)) 1 = Some p
         \<and> p = \<lparr>p_id = 1, p_name = ''ARROZ'', p_barcode = Some ''7701'', p_purchasePrice = ''10.00'',
                 p_salePrice = ''12.00'', p_profitMargin = ''20'', p_buyerName = None,
                 p_stock = Some 5, p_minStock = None, p_createdAt = 1000, p_updatedAt = 5000\<rparr>"
    by blast
  from get a m b show ?thesis
    by blast
qed

section \<open>The durable store's price columns\<close>

lemmas numeric_eval = numeric_10_2_def pg_exponent_def is_space_def is_digit_def digit_value_def
  digits_value_def cents_string_def show_int.simps floor_numeral_div Let_def

lemma numeric_10_2_examples:
  "numeric_10_2 ''100'' = Inr ''100.00''"
  "numeric_10_2 ''120.00'' = Inr ''120.00''"
  "numeric_10_2 ''49.999'' = Inr ''50.00''"
  "numeric_10_2 '' 1e2 '' = Inr ''100.00''"
  "numeric_10_2 ''-.5'' = Inr ''-0.50''"
  "numeric_10_2 ''NaN'' = Inr ''NaN''"
  "numeric_10_2 ''12abc'' = Inl DataException"
  "numeric_10_2 ''1e'' = Inl DataException"
  "numeric_10_2 ''Infinity'' = Inl DataException"
  "numeric_10_2 ''100000000'' = Inl DataException"
  "numeric_10_2 [] = Inl DataException"
  by (simp_all add: numeric_eval)

lemma fl_6_5: "fl (6 / 5) = Fin (5404319552844595 / 4503599627370496)"
  by (rule fl_down [where e = 0 and n = 5404319552844595]) simp_all

lemma fl_100_times_6_5: "fl (135107988821114875 / 1125899906842624) = Fin 120"
  by (rule fl_up [where e = 6 and n = 8444249301319679]) simp_all

text \<open>A purchase price of \<open>100\<close> is stored as \<open>100.00\<close>, with the sale price \<open>120.00\<close>;
  the text \<open>12abc\<close>, which the validation lets through because \<^verbatim>\<open>parseFloat\<close> reads
  \<open>12\<close>, is refused by the column, and nothing is stored.\<close>

lemma db_createProduct_examples:
  "db_createProduct double_runtime 2000 2001 \<lparr>s_name = ''CAFE'', s_purchasePrice = ''100''\<rparr> db2
     = (Inr \<lparr>r_id = products_id_seq db2, r_name = ''CAFE'', r_purchasePrice = ''100.00'',
             r_salePrice = ''120.00'', r_createdAt = 2000, r_updatedAt = 2001\<rparr>,
        db2\<lparr>products_id_seq := products_id_seq db2 + 1,
            products_table := products_table db2 @
              [\<lparr>r_id = products_id_seq db2, r_name = ''CAFE'', r_purchasePrice = ''100.00'',
                r_salePrice = ''120.00'', r_createdAt = 2000, r_updatedAt = 2001\<rparr>]\<rparr>)"
  "db_createProduct double_runtime 2000 2001 \<lparr>s_name = ''CAFE'', s_purchasePrice = ''12abc''\<rparr> db2
     = (Inl DataException, db2)"
proof -
  have n: "numeral_value ''1.2'' = Some (6 / 5)"
    by (simp add: numeral_eval)
  have sale: "toFixed2_double (parseFloat_double ''100'' * parseFloat_double ''1.2'') = ''120.00''"
    by (simp add: parseFloat_double_examples parseFloat_double_numeral [OF n] fl_6_5
        fl_100_times_6_5 toFixed2_double_def floor_numeral_div cents_string_examples)
  have name: "''CAFE'' \<notin> set (map r_name (products_table db2))"
    by (simp add: db2_def)
  show "db_createProduct double_runtime 2000 2001 \<lparr>s_name = ''CAFE'', s_purchasePrice = ''100''\<rparr> db2
     = (Inr \<lparr>r_id = products_id_seq db2, r_name = ''CAFE'', r_purchasePrice = ''100.00'',
             r_salePrice = ''120.00'', r_createdAt = 2000, r_updatedAt = 2001\<rparr>,
        db2\<lparr>products_id_seq := products_id_seq db2 + 1,
            products_table := products_table db2 @
              [\<lparr>r_id = products_id_seq db2, r_name = ''CAFE'', r_purchasePrice = ''100.00'',
                r_salePrice = ''120.00'', r_createdAt = 2000, r_updatedAt = 2001\<rparr>]\<rparr>)"
    using name by (simp add: db_createProduct_def Let_def double_runtime_sel sale numeric_10_2_examples)
  show "db_createProduct double_runtime 2000 2001 \<lparr>s_name = ''CAFE'', s_purchasePrice = ''12abc''\<rparr> db2
     = (Inl DataException, db2)"
    by (simp add: db_createProduct_rejects numeric_10_2_examples)
qed

end
